theory Spec2Isabelle
  imports Main "HOL-Library.Sublist"
begin

section \<open>Errors\<close>

text \<open>
  Every \<^verbatim>\<open>throw new Error(...)\<close> of \<^verbatim>\<open>acm_lib.ts\<close> is a value of this type.
  \<open>NotFound\<close> stands for the messages "... does not exist", \<open>AlreadyExists\<close> for
  "... already exists", \<open>PermissionDenied dbId localId\<close> for
  "Directory dbId does not belong to addon: localId", \<open>Uninitialized\<close> for
  "Addon data not found". \<open>SyntaxError\<close> is what \<^verbatim>\<open>JSON.parse\<close> throws on a string that
  is not JSON, \<open>TypeError\<close> what reading a property of \<^verbatim>\<open>undefined\<close> throws, and
  \<open>HostError\<close> an error raised by the host's scoreboard.
\<close>

datatype error =
    NotFound string
  | AlreadyExists string
  | PermissionDenied string string
  | Uninitialized
  | SyntaxError string
  | TypeError
  | HostError string

section \<open>Strings\<close>

text \<open>
  JavaScript strings are modelled as \<open>string\<close>. \<^verbatim>\<open>s.startsWith(p)\<close>, \<^verbatim>\<open>s.includes(t)\<close>
  and \<^verbatim>\<open>s.replace(pat, rep)\<close> with a string pattern (the first occurrence of \<open>pat\<close> is
  replaced; the replacement used by the source is the empty string, which holds no
  \<^verbatim>\<open>$\<close> pattern).
\<close>

definition startsWith :: "string \<Rightarrow> string \<Rightarrow> bool" where
  "startsWith s p = prefix p s"

fun includes_str :: "string \<Rightarrow> string \<Rightarrow> bool" where
  "includes_str [] t = (t = [])"
| "includes_str (c # cs) t = (prefix t (c # cs) \<or> includes_str cs t)"

fun replace :: "string \<Rightarrow> string \<Rightarrow> string \<Rightarrow> string" where
  "replace [] pat rep = (if pat = [] then rep else [])"
| "replace (c # cs) pat rep =
     (if prefix pat (c # cs) then rep @ drop (length pat) (c # cs)
      else c # replace cs pat rep)"

text \<open>
  \<^verbatim>\<open>s.toUpperCase()\<close> on the ASCII letters; every other character is left as it is,
  so the names built with it are those of the code for ASCII authors, pack ids and names
  (JavaScript also maps letters outside ASCII).
\<close>

definition upperChar :: "char \<Rightarrow> char" where
  "upperChar c =
     (case map_of (zip ''abcdefghijklmnopqrstuvwxyz'' ''ABCDEFGHIJKLMNOPQRSTUVWXYZ'') c of
        Some u \<Rightarrow> u
      | None \<Rightarrow> c)"

definition toUpperCase :: "string \<Rightarrow> string" where
  "toUpperCase s = map upperChar s"

section \<open>The host's scoreboard objective (the ledger)\<close>

text \<open>
  A \<^verbatim>\<open>ScoreboardObjective\<close> of the host has an id, a display name and participants. A
  participant (\<^verbatim>\<open>ScoreboardIdentity\<close>) is its display name paired with its score in this
  objective; \<^verbatim>\<open>getParticipants()\<close> lists them in the order they were added.

  \<^verbatim>\<open>setScore(name, score)\<close> with a string sets the score of the participant of that
  name, adding the participant at the end when there is none.
  \<^verbatim>\<open>removeParticipant(identity)\<close> removes that participant from the objective.
\<close>

type_synonym ScoreboardIdentity = "string \<times> int"

definition displayName :: "ScoreboardIdentity \<Rightarrow> string" where
  "displayName p = fst p"

record ScoreboardObjective =
  objectiveId :: string
  objectiveDisplayName :: string
  participants :: "ScoreboardIdentity list"

definition getParticipants :: "ScoreboardObjective \<Rightarrow> ScoreboardIdentity list" where
  "getParticipants ob = participants ob"

definition getScore :: "ScoreboardObjective \<Rightarrow> ScoreboardIdentity \<Rightarrow> int" where
  "getScore ob p = snd p"

definition setScore :: "ScoreboardObjective \<Rightarrow> string \<Rightarrow> int \<Rightarrow> ScoreboardObjective" where
  "setScore ob name score =
     ob\<lparr>participants :=
       (if name \<in> set (map displayName (participants ob))
        then map (\<lambda>p. if displayName p = name then (name, score) else p) (participants ob)
        else participants ob @ [(name, score)])\<rparr>"

definition removeParticipant :: "ScoreboardObjective \<Rightarrow> ScoreboardIdentity \<Rightarrow> ScoreboardObjective" where
  "removeParticipant ob p =
     ob\<lparr>participants := filter (\<lambda>q. displayName q \<noteq> displayName p) (participants ob)\<rparr>"

section \<open>JSON\<close>

text \<open>
  \<^verbatim>\<open>JSON.stringify\<close> and \<^verbatim>\<open>JSON.parse\<close> belong to the language runtime. They are taken
  as a pair of functions over the type \<open>'c\<close> of file contents: \<open>stringify\<close> gives the
  text of a content, \<open>parse\<close> gives \<open>None\<close> where \<^verbatim>\<open>JSON.parse\<close> throws a SyntaxError.
  A codec is \<open>faithful\<close> when parsing the text of a content gives the content back,
  which is what JSON-serializable means.
\<close>

record 'c JSON =
  stringify :: "'c \<Rightarrow> string"
  parse :: "string \<Rightarrow> 'c option"

definition faithful :: "'c JSON \<Rightarrow> bool" where
  "faithful J = (\<forall>c. parse J (stringify J c) = Some c)"

text \<open>The JSON literals \<^verbatim>\<open>null\<close>, \<^verbatim>\<open>true\<close> and \<^verbatim>\<open>false\<close>, a fragment to compute with.\<close>

datatype literal = JNull | JTrue | JFalse

fun literal_text :: "literal \<Rightarrow> string" where
  "literal_text JNull = ''null''"
| "literal_text JTrue = ''true''"
| "literal_text JFalse = ''false''"

definition literal_parse :: "string \<Rightarrow> literal option" where
  "literal_parse s =
     (if s = ''null'' then Some JNull
      else if s = ''true'' then Some JTrue
      else if s = ''false'' then Some JFalse
      else None)"

definition literals :: "literal JSON" where
  "literals = \<lparr>stringify = literal_text, parse = literal_parse\<rparr>"

section \<open>Directory\<close>

text \<open>
  A \<^verbatim>\<open>Directory\<close> holds its objective, \<open>dbId\<close> (the objective's display name) and
  \<open>localId\<close> (the upper-cased \<^verbatim>\<open>author_packId\<close> of the addon that built the object).
  The methods that mutate the objective return the directory with the new objective.
\<close>

record Directory =
  objective :: ScoreboardObjective
  dbId :: string
  localId :: string

definition getKeyIdentity :: "Directory \<Rightarrow> string \<Rightarrow> ScoreboardIdentity option" where
  "getKeyIdentity d fileName =
     find (\<lambda>p. startsWith (displayName p) (fileName @ '':''))
       (getParticipants (objective d))"

definition getKeyData :: "'c JSON \<Rightarrow> string \<Rightarrow> ScoreboardIdentity \<Rightarrow> error + 'c" where
  "getKeyData J fileName identity =
     (let s = replace (displayName identity) (fileName @ '':'') ''''
      in case parse J s of None \<Rightarrow> Inl (SyntaxError s) | Some c \<Rightarrow> Inr c)"

definition isOwner :: "Directory \<Rightarrow> error + bool" where
  "isOwner d =
     (if \<not> includes_str (dbId d) (localId d) then Inl (PermissionDenied (dbId d) (localId d))
      else Inr True)"

definition Directory_exists :: "Directory \<Rightarrow> string \<Rightarrow> bool" where
  "Directory_exists d fileName = (getKeyIdentity d fileName \<noteq> None)"

definition Directory_read :: "'c JSON \<Rightarrow> Directory \<Rightarrow> string \<Rightarrow> error + 'c" where
  "Directory_read J d fileName =
     (if \<not> Directory_exists d fileName then Inl (NotFound fileName)
      else case getKeyIdentity d fileName of
             None \<Rightarrow> Inl (NotFound fileName)
           | Some identity \<Rightarrow> getKeyData J fileName identity)"

text \<open>
  \<^verbatim>\<open>write\<close> is an \<^verbatim>\<open>async\<close> function with no \<^verbatim>\<open>await\<close> in its body: the body runs to its
  end at the call, and what it throws rejects the promise it returns. The first component
  of the result is that promise, settled: \<open>Inl e\<close> rejected with \<open>e\<close>, \<open>Inr ()\<close>
  fulfilled.
\<close>

definition Directory_write ::
  "'c JSON \<Rightarrow> Directory \<Rightarrow> string \<Rightarrow> 'c \<Rightarrow> bool \<Rightarrow> (error + unit) \<times> Directory" where
  "Directory_write J d fileName content allowOverwrite =
     (let dataKey = fileName @ '':'' @ stringify J content
      in if Directory_exists d fileName \<and> \<not> allowOverwrite
         then (Inl (AlreadyExists fileName), d)
         else case isOwner d of
                Inl e \<Rightarrow> (Inl e, d)
              | Inr own \<Rightarrow>
                  if \<not> own then (Inr (), d)
                  else let slotNumber = int (length (getParticipants (objective d)))
                       in (Inr (), d\<lparr>objective := setScore (objective d) dataKey slotNumber\<rparr>))"

definition Directory_delete :: "Directory \<Rightarrow> string \<Rightarrow> (error + unit) \<times> Directory" where
  "Directory_delete d fileName =
     (if \<not> Directory_exists d fileName then (Inl (NotFound fileName), d)
      else case isOwner d of
             Inl e \<Rightarrow> (Inl e, d)
           | Inr own \<Rightarrow>
               if \<not> own then (Inr (), d)
               else (case getKeyIdentity d fileName of
                       None \<Rightarrow> (Inl (NotFound fileName), d)
                     | Some identity \<Rightarrow>
                         (Inr (), d\<lparr>objective := removeParticipant (objective d) identity\<rparr>)))"

text \<open>
  \<^verbatim>\<open>rename\<close> and \<^verbatim>\<open>copy\<close> call \<^verbatim>\<open>this.write(...)\<close> without awaiting it: the promise is
  dropped, so a rejection of it does not reach their caller.
\<close>

definition Directory_rename ::
  "'c JSON \<Rightarrow> Directory \<Rightarrow> string \<Rightarrow> string \<Rightarrow> (error + unit) \<times> Directory" where
  "Directory_rename J d oldFileName newFileName =
     (if \<not> Directory_exists d oldFileName then (Inl (NotFound oldFileName), d)
      else if Directory_exists d newFileName then (Inl (AlreadyExists newFileName), d)
      else case isOwner d of
             Inl e \<Rightarrow> (Inl e, d)
           | Inr own \<Rightarrow>
               if \<not> own then (Inr (), d)
               else (case getKeyIdentity d oldFileName of
                       None \<Rightarrow> (Inl (NotFound oldFileName), d)
                     | Some identity \<Rightarrow>
                         (case getKeyData J oldFileName identity of
                            Inl e \<Rightarrow> (Inl e, d)
                          | Inr content \<Rightarrow>
                              (case Directory_delete d oldFileName of
                                 (Inl e, d1) \<Rightarrow> (Inl e, d1)
                               | (Inr u, d1) \<Rightarrow>
                                   (Inr (), snd (Directory_write J d1 newFileName content True))))))"

definition Directory_copy ::
  "'c JSON \<Rightarrow> Directory \<Rightarrow> string \<Rightarrow> string \<Rightarrow> (error + unit) \<times> Directory" where
  "Directory_copy J d sourceFileName destinationFileName =
     (if \<not> Directory_exists d sourceFileName then (Inl (NotFound sourceFileName), d)
      else if Directory_exists d destinationFileName
      then (Inl (AlreadyExists destinationFileName), d)
      else case isOwner d of
             Inl e \<Rightarrow> (Inl e, d)
           | Inr own \<Rightarrow>
               if \<not> own then (Inr (), d)
               else (case getKeyIdentity d sourceFileName of
                       None \<Rightarrow> (Inl (NotFound sourceFileName), d)
                     | Some identity \<Rightarrow>
                         (case getKeyData J sourceFileName identity of
                            Inl e \<Rightarrow> (Inl e, d)
                          | Inr content \<Rightarrow>
                              (Inr (), snd (Directory_write J d destinationFileName content True)))))"

definition Directory_move ::
  "'c JSON \<Rightarrow> Directory \<Rightarrow> string \<Rightarrow> string \<Rightarrow> (error + unit) \<times> Directory" where
  "Directory_move J d sourceFileName destinationFileName =
     (case isOwner d of
        Inl e \<Rightarrow> (Inl e, d)
      | Inr own \<Rightarrow>
          (case Directory_copy J d sourceFileName destinationFileName of
             (Inl e, d1) \<Rightarrow> (Inl e, d1)
           | (Inr u, d1) \<Rightarrow> Directory_delete d1 sourceFileName))"

section \<open>The addon and the world\<close>

text \<open>
  The settings of an addon are widgets or categories of widgets. A widget is modelled by
  the properties the library reads: \<open>label\<close>, \<open>value\<close>, \<open>options\<close> and \<open>valueIndex\<close>, each
  of the last three absent (\<open>None\<close>) or present. Numbers are integers here.
\<close>

datatype jsvalue = VString string | VNumber int | VBool bool

record SettingsWidget =
  label :: string
  wvalue :: "jsvalue option"
  options :: "string list option"
  valueIndex :: "int option"

record SettingsCatagory =
  title :: string
  widgets :: "SettingsWidget list"

datatype Settings = Widgets "SettingsWidget list" | Catagories "SettingsCatagory list"

record AddonData =
  author :: string
  packId :: string
  settings :: "Settings option"

text \<open>
  \<^verbatim>\<open>world.scoreboard\<close> maps the id of an objective to the objective.
  \<^verbatim>\<open>addObjective(id)\<close> makes an objective with no participant whose display name is its
  id, and fails when the id is taken; \<^verbatim>\<open>removeObjective(id)\<close> removes it.
\<close>

type_synonym Scoreboard = "string \<rightharpoonup> ScoreboardObjective"

definition getObjective :: "Scoreboard \<Rightarrow> string \<Rightarrow> ScoreboardObjective option" where
  "getObjective sb objId = sb objId"

definition addObjective :: "Scoreboard \<Rightarrow> string \<Rightarrow> error + ScoreboardObjective \<times> Scoreboard" where
  "addObjective sb objId =
     (case sb objId of
        Some ob \<Rightarrow> Inl (HostError objId)
      | None \<Rightarrow>
          (let ob = \<lparr>objectiveId = objId, objectiveDisplayName = objId, participants = []\<rparr>
           in Inr (ob, sb(objId \<mapsto> ob))))"

definition removeObjective :: "Scoreboard \<Rightarrow> string \<Rightarrow> Scoreboard" where
  "removeObjective sb objId = sb(objId := None)"

text \<open>
  The state the file system works on: \<^verbatim>\<open>AcmLib.addonData\<close> (undefined until
  \<^verbatim>\<open>initAddon\<close>), the host's scoreboard, and what \<^verbatim>\<open>console.warn\<close> has printed.
\<close>

record World =
  addonData :: "AddonData option"
  scoreboard :: Scoreboard
  warnings :: "string list"

section \<open>FsSys and FsDir: the directory registry\<close>

definition ROOT_DIR :: string where
  "ROOT_DIR = ''ACM:FS''"

definition FsSys_getLocalId :: "World \<Rightarrow> error + string" where
  "FsSys_getLocalId w =
     (case addonData w of
        None \<Rightarrow> Inl Uninitialized
      | Some a \<Rightarrow> Inr (author a @ ''_'' @ packId a))"

definition FsSys_format :: "World \<Rightarrow> string \<Rightarrow> error + string" where
  "FsSys_format w name =
     (case FsSys_getLocalId w of
        Inl e \<Rightarrow> Inl e
      | Inr lid \<Rightarrow> Inr (ROOT_DIR @ ''.'' @ toUpperCase lid @ ''.'' @ toUpperCase name))"

text \<open>
  \<^verbatim>\<open>Directory.create(objective)\<close>: the initializer of \<open>localId\<close> reads
  \<^verbatim>\<open>AcmLib.addonData\<close> and throws when it is undefined.
\<close>

definition Directory_create :: "World \<Rightarrow> ScoreboardObjective \<Rightarrow> error + Directory" where
  "Directory_create w ob =
     (case addonData w of
        None \<Rightarrow> Inl Uninitialized
      | Some a \<Rightarrow>
          Inr \<lparr>objective = ob, dbId = objectiveDisplayName ob,
               localId = toUpperCase (author a @ ''_'' @ packId a)\<rparr>)"

text \<open>
  \<^verbatim>\<open>FsDir\<close> is built once, by \<^verbatim>\<open>FsSys\<close>, with \<^verbatim>\<open>world.scoreboard\<close> and \<^verbatim>\<open>FsSys._format\<close>.
\<close>

definition FsDir_isValid :: "World \<Rightarrow> string \<Rightarrow> error + bool" where
  "FsDir_isValid w name =
     (case FsSys_format w name of
        Inl e \<Rightarrow> Inl e
      | Inr n \<Rightarrow> Inr (getObjective (scoreboard w) n \<noteq> None))"

definition FsDir_get :: "World \<Rightarrow> string \<Rightarrow> error + Directory option" where
  "FsDir_get w name =
     (case FsSys_format w name of
        Inl e \<Rightarrow> Inl e
      | Inr n \<Rightarrow>
          (case getObjective (scoreboard w) n of
             None \<Rightarrow> Inr None
           | Some db \<Rightarrow>
               (case Directory_create w db of Inl e \<Rightarrow> Inl e | Inr d \<Rightarrow> Inr (Some d))))"

text \<open>
  The last two statements of \<^verbatim>\<open>new\<close>: add the objective and wrap it. \<^verbatim>\<open>new\<close> reaches them
  when the name is not valid, and would also reach them if \<^verbatim>\<open>get\<close> found nothing for a
  valid name.
\<close>

definition FsDir_add :: "World \<Rightarrow> string \<Rightarrow> (error + Directory) \<times> World" where
  "FsDir_add w formatedName =
     (case addObjective (scoreboard w) formatedName of
        Inl e \<Rightarrow> (Inl e, w)
      | Inr (db, sb) \<Rightarrow> (Directory_create (w\<lparr>scoreboard := sb\<rparr>) db, w\<lparr>scoreboard := sb\<rparr>))"

definition FsDir_new :: "World \<Rightarrow> string \<Rightarrow> bool \<Rightarrow> (error + Directory) \<times> World" where
  "FsDir_new w name ignoreWarn =
     (case FsSys_format w name of
        Inl e \<Rightarrow> (Inl e, w)
      | Inr formatedName \<Rightarrow>
          (case FsDir_isValid w name of
             Inl e \<Rightarrow> (Inl e, w)
           | Inr valid \<Rightarrow>
               if valid then
                 (let w1 = (if \<not> ignoreWarn
                            then w\<lparr>warnings := warnings w @
                                   [''Directory '' @ formatedName @ '' already exists'']\<rparr>
                            else w)
                  in case FsDir_get w1 name of
                       Inl e \<Rightarrow> (Inl e, w1)
                     | Inr (Some db) \<Rightarrow> (Inr db, w1)
                     | Inr None \<Rightarrow> FsDir_add w1 formatedName)
               else FsDir_add w formatedName))"

definition FsDir_delete :: "World \<Rightarrow> string \<Rightarrow> (error + unit) \<times> World" where
  "FsDir_delete w name =
     (case FsDir_get w name of
        Inl e \<Rightarrow> (Inl e, w)
      | Inr None \<Rightarrow> (Inl (NotFound name), w)
      | Inr (Some db) \<Rightarrow>
          (case FsSys_format w name of
             Inl e \<Rightarrow> (Inl e, w)
           | Inr n \<Rightarrow> (Inr (), w\<lparr>scoreboard := removeObjective (scoreboard w) n\<rparr>)))"

section \<open>AcmLibrary: loading the settings\<close>

definition AcmLibrary_identifier :: "World \<Rightarrow> string" where
  "AcmLibrary_identifier w =
     (case addonData w of
        None \<Rightarrow> ''undefined_undefined''
      | Some a \<Rightarrow> author a @ ''_'' @ packId a)"

fun isSettingsCatagory :: "Settings \<Rightarrow> bool" where
  "isSettingsCatagory (Widgets ws) = False"
| "isSettingsCatagory (Catagories cs) = (length cs > 0)"

text \<open>An absent or empty \<open>categoryTitle\<close> is falsy and selects the addon's flat ledger.\<close>

definition getSettingsDatabase :: "World \<Rightarrow> string option \<Rightarrow> ScoreboardObjective option" where
  "getSettingsDatabase w categoryTitle =
     (let ident = toUpperCase (AcmLibrary_identifier w);
          objectiveName =
            (case categoryTitle of
               None \<Rightarrow> ''ACM:'' @ ident
             | Some t \<Rightarrow> if t = [] then ''ACM:'' @ ident
                          else ''ACM:'' @ ident @ ''_'' @ toUpperCase t)
      in getObjective (scoreboard w) objectiveName)"

definition getRawSettingsData :: "ScoreboardObjective \<Rightarrow> ScoreboardIdentity option" where
  "getRawSettingsData db = find (\<lambda>participant. getScore db participant = 0) (getParticipants db)"

definition parseSettingsArray ::
  "SettingsWidget list JSON \<Rightarrow> ScoreboardIdentity \<Rightarrow> error + SettingsWidget list" where
  "parseSettingsArray J rawSettingsData =
     (case parse J (displayName rawSettingsData) of
        None \<Rightarrow> Inl (SyntaxError (displayName rawSettingsData))
      | Some arr \<Rightarrow> Inr arr)"

text \<open>
  \<^verbatim>\<open>setting.options[setting.valueIndex] || undefined\<close>: an index out of range reads
  \<^verbatim>\<open>undefined\<close>, and the empty string is falsy.
\<close>

definition processSetting :: "SettingsWidget \<Rightarrow> jsvalue option" where
  "processSetting setting =
     (case (options setting, valueIndex setting) of
        (Some opts, Some i) \<Rightarrow>
          (if 0 \<le> i \<and> nat i < length opts \<and> opts ! nat i \<noteq> []
           then Some (VString (opts ! nat i)) else None)
      | _ \<Rightarrow> wvalue setting)"

text \<open>
  A settings object maps a key to its value, \<open>Some None\<close> for a key whose value is
  \<^verbatim>\<open>undefined\<close>. Every label and title is an ordinary key here; the key
  \<^verbatim>\<open>__proto__\<close>, which an assignment to a JavaScript object does not store as a key of its
  own, is not told apart.
\<close>

type_synonym SettingsObject = "string \<rightharpoonup> jsvalue option"

definition settingsOf :: "SettingsWidget list \<Rightarrow> SettingsObject" where
  "settingsOf settingsArray =
     foldl (\<lambda>obj setting. obj(label setting \<mapsto> processSetting setting)) Map.empty settingsArray"

definition processCategorySettings ::
  "SettingsWidget list JSON \<Rightarrow> World \<Rightarrow> SettingsCatagory \<Rightarrow> error + SettingsObject" where
  "processCategorySettings J w category =
     (case getSettingsDatabase w (Some (title category)) of
        None \<Rightarrow> Inr Map.empty
      | Some db \<Rightarrow>
          (case getRawSettingsData db of
             None \<Rightarrow> Inr Map.empty
           | Some rawSettingsData \<Rightarrow>
               (case parseSettingsArray J rawSettingsData of
                  Inl e \<Rightarrow> Inl e
                | Inr settingsArray \<Rightarrow> Inr (settingsOf settingsArray))))"

definition processFlatSettings ::
  "SettingsWidget list JSON \<Rightarrow> World \<Rightarrow> error + SettingsObject" where
  "processFlatSettings J w =
     (case getSettingsDatabase w None of
        None \<Rightarrow> Inr Map.empty
      | Some db \<Rightarrow>
          (case getRawSettingsData db of
             None \<Rightarrow> Inr Map.empty
           | Some rawSettingsData \<Rightarrow>
               (case parseSettingsArray J rawSettingsData of
                  Inl e \<Rightarrow> Inl e
                | Inr settingsArray \<Rightarrow> Inr (settingsOf settingsArray))))"

text \<open>
  \<^verbatim>\<open>loadSettingsData\<close> returns the flat object, or an object of one object per category.
  With no settings in the addon data, \<^verbatim>\<open>settings.length\<close> throws a TypeError.
\<close>

datatype SettingsData =
    Flat SettingsObject
  | ByCatagory "string \<rightharpoonup> SettingsObject"

fun loadCatagories ::
  "SettingsWidget list JSON \<Rightarrow> World \<Rightarrow> SettingsCatagory list \<Rightarrow>
     (string \<rightharpoonup> SettingsObject) \<Rightarrow> error + (string \<rightharpoonup> SettingsObject)" where
  "loadCatagories J w [] obj = Inr obj"
| "loadCatagories J w (category # cs) obj =
     (case processCategorySettings J w category of
        Inl e \<Rightarrow> Inl e
      | Inr co \<Rightarrow> loadCatagories J w cs (obj(title category \<mapsto> co)))"

definition loadSettingsData :: "SettingsWidget list JSON \<Rightarrow> World \<Rightarrow> error + SettingsData" where
  "loadSettingsData J w =
     (case addonData w of
        None \<Rightarrow> Inr (Flat Map.empty)
      | Some a \<Rightarrow>
          (case settings a of
             None \<Rightarrow> Inl TypeError
           | Some st \<Rightarrow>
               if isSettingsCatagory st then
                 (case st of
                    Catagories cs \<Rightarrow>
                      (case loadCatagories J w cs Map.empty of
                         Inl e \<Rightarrow> Inl e
                       | Inr obj \<Rightarrow> Inr (ByCatagory obj))
                  | Widgets ws \<Rightarrow> Inl TypeError)
               else (case processFlatSettings J w of
                       Inl e \<Rightarrow> Inl e
                     | Inr obj \<Rightarrow> Inr (Flat obj))))"

section \<open>The signal bus\<close>

text \<open>
  A JavaScript \<^verbatim>\<open>Set\<close> keeps its elements in insertion order, each once: it is a list
  without repetition. \<^verbatim>\<open>add\<close> appends an element that is not there, \<^verbatim>\<open>delete\<close> removes it.
\<close>

definition Set_add :: "'a list \<Rightarrow> 'a \<Rightarrow> 'a list" where
  "Set_add xs x = (if x \<in> set xs then xs else xs @ [x])"

definition Set_delete :: "'a list \<Rightarrow> 'a \<Rightarrow> 'a list" where
  "Set_delete xs x = filter (\<lambda>y. y \<noteq> x) xs"

text \<open>
  The four signal classes. Each has one static field \<^verbatim>\<open>subscribers\<close>; an instance has no
  field of its own and is its class with the number it was created under.

  A callback is a function object, compared by identity: it is a reference, and the
  table \<open>funs\<close> gives what the function does: from the event and the state of the
  application, the state it leaves and \<open>Some x\<close> when it throws \<open>x\<close>. A callback does not
  subscribe or unsubscribe while an emission runs.
\<close>

datatype SignalClass =
    OnAddonReadyEventSignal
  | OnCustomSignalEmittedEventSignal
  | OnSettingsChangedEventSignal
  | OnExtensionTriggerdEventSignal

type_synonym callback = nat

type_synonym Signal = "SignalClass \<times> nat"

record ('s, 'x) Runtime =
  subscribers :: "SignalClass \<Rightarrow> callback list"
  created :: nat
  console :: "(string \<times> 'x) list"
  calls :: "(SignalClass \<times> callback) list"
  app :: 's

definition Signal_create :: "SignalClass \<Rightarrow> ('s, 'x) Runtime \<Rightarrow> Signal \<times> ('s, 'x) Runtime" where
  "Signal_create K st = ((K, created st), st\<lparr>created := Suc (created st)\<rparr>)"

definition subscribe :: "Signal \<Rightarrow> callback \<Rightarrow> ('s, 'x) Runtime \<Rightarrow> callback \<times> ('s, 'x) Runtime" where
  "subscribe this cb st =
     (cb, st\<lparr>subscribers := (subscribers st)(fst this := Set_add (subscribers st (fst this)) cb)\<rparr>)"

definition unsubscribe :: "Signal \<Rightarrow> callback \<Rightarrow> ('s, 'x) Runtime \<Rightarrow> ('s, 'x) Runtime" where
  "unsubscribe this cb st =
     st\<lparr>subscribers := (subscribers st)(fst this := Set_delete (subscribers st (fst this)) cb)\<rparr>"

record Events =
  OnAddonReady :: Signal
  OnSettingsChanged :: Signal
  OnExtensionTriggerd :: Signal
  OnCustomSignalEmitted :: Signal

definition Events_create :: "('s, 'x) Runtime \<Rightarrow> Events \<times> ('s, 'x) Runtime" where
  "Events_create st =
     (let (a, st1) = Signal_create OnAddonReadyEventSignal st;
          (b, st2) = Signal_create OnSettingsChangedEventSignal st1;
          (c, st3) = Signal_create OnExtensionTriggerdEventSignal st2;
          (d, st4) = Signal_create OnCustomSignalEmittedEventSignal st3
      in (\<lparr>OnAddonReady = a, OnSettingsChanged = b, OnExtensionTriggerd = c,
           OnCustomSignalEmitted = d\<rparr>, st4))"

text \<open>
  Statements that may throw give \<open>Inl x\<close> with the state at the throw. A
  \<^verbatim>\<open>for ... of\<close> loop stops at the first iteration that throws; \<^verbatim>\<open>try { } catch { }\<close>
  runs the handler on what the body throws.
\<close>

fun for_of ::
  "'a list \<Rightarrow> ('a \<Rightarrow> 'st \<Rightarrow> ('x + unit) \<times> 'st) \<Rightarrow> 'st \<Rightarrow> ('x + unit) \<times> 'st" where
  "for_of [] body st = (Inr (), st)"
| "for_of (x # xs) body st =
     (case body x st of
        (Inl e, st1) \<Rightarrow> (Inl e, st1)
      | (Inr u, st1) \<Rightarrow> for_of xs body st1)"

definition try_catch ::
  "('st \<Rightarrow> ('x + unit) \<times> 'st) \<Rightarrow> ('x \<Rightarrow> 'st \<Rightarrow> ('x + unit) \<times> 'st) \<Rightarrow> 'st \<Rightarrow> ('x + unit) \<times> 'st" where
  "try_catch body handler st =
     (case body st of
        (Inl e, st1) \<Rightarrow> handler e st1
      | (Inr u, st1) \<Rightarrow> (Inr u, st1))"

definition console_error :: "string \<Rightarrow> 'x \<Rightarrow> ('s, 'x) Runtime \<Rightarrow> ('x + unit) \<times> ('s, 'x) Runtime" where
  "console_error msg err st = (Inr (), st\<lparr>console := console st @ [(msg, err)]\<rparr>)"

definition invoke ::
  "SignalClass \<Rightarrow> (callback \<Rightarrow> 'e \<Rightarrow> 's \<Rightarrow> 'x option \<times> 's) \<Rightarrow> callback \<Rightarrow> 'e \<Rightarrow>
     ('s, 'x) Runtime \<Rightarrow> ('x + unit) \<times> ('s, 'x) Runtime" where
  "invoke K funs cb event st =
     (let (thrown, a) = funs cb event (app st);
          st1 = st\<lparr>calls := calls st @ [(K, cb)], app := a\<rparr>
      in case thrown of None \<Rightarrow> (Inr (), st1) | Some x \<Rightarrow> (Inl x, st1))"

fun errorLabel :: "SignalClass \<Rightarrow> string" where
  "errorLabel OnAddonReadyEventSignal = ''Error @ACM:OnAddonReadyEvent global subscriber:''"
| "errorLabel OnCustomSignalEmittedEventSignal =
     ''Error @ACM:OnCustomSignalEmittedEvent global subscriber:''"
| "errorLabel OnSettingsChangedEventSignal =
     ''Error @ACM:OnSettingsChangedEvent global subscriber:''"
| "errorLabel OnExtensionTriggerdEventSignal =
     ''Error @ACM:OnExtensionTriggerdEvent global subscriber:''"

definition emit ::
  "SignalClass \<Rightarrow> (callback \<Rightarrow> 'e \<Rightarrow> 's \<Rightarrow> 'x option \<times> 's) \<Rightarrow> 'e \<Rightarrow>
     ('s, 'x) Runtime \<Rightarrow> ('x + unit) \<times> ('s, 'x) Runtime" where
  "emit K funs event st =
     for_of (subscribers st K)
       (\<lambda>cb. try_catch (invoke K funs cb event) (console_error (errorLabel K))) st"

section \<open>Notions used to state the properties\<close>

text \<open>The entries of a directory's ledger that \<^verbatim>\<open>getKeyIdentity\<close> matches for a file name.\<close>

definition entriesFor :: "Directory \<Rightarrow> string \<Rightarrow> ScoreboardIdentity list" where
  "entriesFor d fileName =
     filter (\<lambda>p. startsWith (displayName p) (fileName @ '':'')) (getParticipants (objective d))"

text \<open>
  What the callbacks \<open>cbs\<close> throw when they are called one after the other on an event,
  from the application state \<open>a\<close>.
\<close>

fun thrown ::
  "(callback \<Rightarrow> 'e \<Rightarrow> 's \<Rightarrow> 'x option \<times> 's) \<Rightarrow> 'e \<Rightarrow> callback list \<Rightarrow> 's \<Rightarrow> 'x list" where
  "thrown funs event [] a = []"
| "thrown funs event (cb # cbs) a =
     (case funs cb event a of
        (None, a1) \<Rightarrow> thrown funs event cbs a1
      | (Some x, a1) \<Rightarrow> x # thrown funs event cbs a1)"

text \<open>
  The application state the callbacks \<open>cbs\<close> leave when they are run one after the other
  on an event, from the application state \<open>a\<close>: each is applied once per occurrence, in
  order, whether it throws or not.
\<close>

fun ran ::
  "(callback \<Rightarrow> 'e \<Rightarrow> 's \<Rightarrow> 'x option \<times> 's) \<Rightarrow> 'e \<Rightarrow> callback list \<Rightarrow> 's \<Rightarrow> 's" where
  "ran funs event [] a = a"
| "ran funs event (cb # cbs) a = ran funs event cbs (snd (funs cb event a))"

text \<open>How often a callback of a signal class was called between two states.\<close>

definition invocations ::
  "SignalClass \<Rightarrow> callback \<Rightarrow> ('s, 'x) Runtime \<Rightarrow> ('s, 'x) Runtime \<Rightarrow> nat" where
  "invocations K cb before after =
     count_list (drop (length (calls before)) (calls after)) (K, cb)"

section \<open>Example states\<close>

text \<open>
  The directory \<^verbatim>\<open>logs\<close> of the addon of author \<^verbatim>\<open>ann\<close> and pack \<^verbatim>\<open>core\<close>: empty
  (\<open>home\<close>), holding given entries, and as seen by another addon (\<open>foreign\<close>).
\<close>

definition home :: Directory where
  "home = \<lparr>objective = \<lparr>objectiveId = ''ACM:FS.ANN_CORE.LOGS'',
               objectiveDisplayName = ''ACM:FS.ANN_CORE.LOGS'', participants = []\<rparr>,
            dbId = ''ACM:FS.ANN_CORE.LOGS'', localId = ''ANN_CORE''\<rparr>"

definition holding :: "ScoreboardIdentity list \<Rightarrow> Directory" where
  "holding ps = home\<lparr>objective := (objective home)\<lparr>participants := ps\<rparr>\<rparr>"

definition foreign :: Directory where
  "foreign = (holding [(''f:true'', 0)])\<lparr>localId := ''BOB_MOD''\<rparr>"

text \<open>
  A runtime with no subscriber, and one whose \<^verbatim>\<open>OnAddonReadyEventSignal\<close> has the given
  subscribers. The callbacks of \<open>noisy\<close> add the event to a counter; callback 1 then
  throws.
\<close>

definition quiet :: "(nat, string) Runtime" where
  "quiet = \<lparr>subscribers = (\<lambda>K. []), created = 0, console = [], calls = [], app = 0\<rparr>"

definition listening :: "callback list \<Rightarrow> (nat, string) Runtime" where
  "listening cbs = quiet\<lparr>subscribers := (subscribers quiet)(OnAddonReadyEventSignal := cbs)\<rparr>"

definition noisy :: "callback \<Rightarrow> nat \<Rightarrow> nat \<Rightarrow> string option \<times> nat" where
  "noisy cb event a = (if cb = 1 then Some ''boom'' else None, a + event)"

text \<open>The world of that addon before and after its directory \<^verbatim>\<open>logs\<close> is made.\<close>

definition ann :: "Settings option \<Rightarrow> AddonData" where
  "ann st = \<lparr>author = ''ann'', packId = ''core'', settings = st\<rparr>"

definition logs :: ScoreboardObjective where
  "logs = \<lparr>objectiveId = ''ACM:FS.ANN_CORE.LOGS'',
           objectiveDisplayName = ''ACM:FS.ANN_CORE.LOGS'', participants = []\<rparr>"

definition fresh :: World where
  "fresh = \<lparr>addonData = Some (ann None), scoreboard = Map.empty, warnings = []\<rparr>"

definition registered :: "string list \<Rightarrow> World" where
  "registered ws = \<lparr>addonData = Some (ann None),
     scoreboard = [''ACM:FS.ANN_CORE.LOGS'' \<mapsto> logs], warnings = ws\<rparr>"

text \<open>
  Settings ledgers: the flat one and the one of category \<^verbatim>\<open>sound\<close> hold a blob at score
  0 behind an entry of score 1; the one of category \<^verbatim>\<open>video\<close> holds no entry of score 0,
  nor does the flat ledger of the world \<open>unset\<close>.
  \<open>widgetJSON\<close> reads the two texts these ledgers hold.
\<close>

definition blob :: string where
  \<open>blob = ''[{"label":"on","value":true}]''\<close>

definition switch :: SettingsWidget where
  "switch = \<lparr>label = ''on'', wvalue = Some (VBool True), options = None, valueIndex = None\<rparr>"

definition widgetJSON :: "SettingsWidget list JSON" where
  "widgetJSON = \<lparr>stringify = (\<lambda>ws. if ws = [switch] then blob else ''[]''),
                  parse = (\<lambda>s. if s = blob then Some [switch]
                                 else if s = ''[]'' then Some [] else None)\<rparr>"

definition ledger :: "string \<Rightarrow> ScoreboardIdentity list \<Rightarrow> ScoreboardObjective" where
  "ledger n ps = \<lparr>objectiveId = n, objectiveDisplayName = n, participants = ps\<rparr>"

definition configured :: "Settings \<Rightarrow> World" where
  "configured st =
     \<lparr>addonData = Some (ann (Some st)),
      scoreboard =
        [''ACM:ANN_CORE'' \<mapsto> ledger ''ACM:ANN_CORE'' [(''[]'', 1), (blob, 0), (''[]'', 0)],
         ''ACM:ANN_CORE_SOUND'' \<mapsto> ledger ''ACM:ANN_CORE_SOUND'' [(''[]'', 1), (blob, 0)],
         ''ACM:ANN_CORE_VIDEO'' \<mapsto> ledger ''ACM:ANN_CORE_VIDEO'' [(blob, 2)]],
      warnings = []\<rparr>"

definition unset :: World where
  "unset = \<lparr>addonData = Some (ann (Some (Widgets []))),
     scoreboard = [''ACM:ANN_CORE'' \<mapsto> ledger ''ACM:ANN_CORE'' [(blob, 2)]], warnings = []\<rparr>"

definition sound :: SettingsCatagory where
  "sound = \<lparr>title = ''sound'', widgets = []\<rparr>"

definition video :: SettingsCatagory where
  "video = \<lparr>title = ''video'', widgets = []\<rparr>"

section \<open>Evaluation of the examples\<close>

lemmas dir_eval = home_def holding_def foreign_def literals_def literal_parse_def
  Directory_write_def Directory_read_def Directory_delete_def Directory_rename_def
  Directory_copy_def Directory_exists_def getKeyIdentity_def getKeyData_def isOwner_def
  getParticipants_def setScore_def removeParticipant_def startsWith_def displayName_def
  entriesFor_def

lemmas bus_eval = quiet_def noisy_def listening_def emit_def try_catch_def invoke_def
  console_error_def subscribe_def unsubscribe_def Set_add_def Set_delete_def invocations_def
  Signal_create_def

lemmas reg_eval = ann_def logs_def fresh_def registered_def FsDir_new_def FsDir_get_def
  FsDir_delete_def FsDir_isValid_def FsDir_add_def FsSys_format_def FsSys_getLocalId_def
  Directory_create_def getObjective_def addObjective_def removeObjective_def ROOT_DIR_def
  toUpperCase_def upperChar_def Let_def

lemmas set_eval = ann_def blob_def switch_def widgetJSON_def ledger_def configured_def unset_def
  sound_def video_def getSettingsDatabase_def AcmLibrary_identifier_def getObjective_def
  getRawSettingsData_def getParticipants_def getScore_def parseSettingsArray_def
  processFlatSettings_def processCategorySettings_def loadSettingsData_def settingsOf_def
  processSetting_def displayName_def toUpperCase_def upperChar_def Let_def

lemma literals_faithful: "faithful literals"
  unfolding faithful_def
proof
  fix c show "parse literals (stringify literals c) = Some c"
    by (cases c) (simp_all add: literals_def literal_parse_def)
qed

section \<open>Directory: strings and lookups\<close>

lemma replace_prefix: "replace (p @ s) p rep = rep @ s"
proof (cases "p @ s")
  case Nil
  then show ?thesis by simp
next
  case (Cons a l)
  have "prefix p (a # l)" using Cons by (metis prefixI)
  moreover have "drop (length p) (a # l) = s" using Cons by (metis append_eq_conv_conj)
  ultimately show ?thesis using Cons by simp
qed

lemma find_snoc:
  "find P (xs @ [y]) =
     (case find P xs of None \<Rightarrow> (if P y then Some y else None) | Some x \<Rightarrow> Some x)"
  by (induction xs) auto

lemma exists_iff:
  "Directory_exists d f \<longleftrightarrow>
     (\<exists>p \<in> set (participants (objective d)). prefix (f @ '':'') (fst p))"
  unfolding Directory_exists_def getKeyIdentity_def getParticipants_def startsWith_def
    displayName_def find_None_iff by blast

lemma isOwner_owned: "includes_str (dbId d) (localId d) \<Longrightarrow> isOwner d = Inr True"
  by (simp add: isOwner_def)

lemma isOwner_refuses:
  "\<not> includes_str (dbId d) (localId d) \<Longrightarrow>
     isOwner d = Inl (PermissionDenied (dbId d) (localId d))"
  by (simp add: isOwner_def)

lemma read_absent: "\<not> Directory_exists d f \<Longrightarrow> Directory_read J d f = Inl (NotFound f)"
  by (simp add: Directory_read_def)

lemma read_data:
  assumes "Directory_read J d f = Inr c"
  shows "\<exists>i. getKeyIdentity d f = Some i \<and> getKeyData J f i = Inr c"
  using assms by (auto simp: Directory_read_def split: if_splits option.splits)

section \<open>Directory: ownership\<close>

text \<open>
  C1 (corrected). The claim: on a Directory whose owner id is not a substring of its
  \<open>dbId\<close>, \<^verbatim>\<open>write\<close>, \<^verbatim>\<open>delete\<close>, \<^verbatim>\<open>rename\<close> and \<^verbatim>\<open>copy\<close> return without an error and
  leave the ledger unchanged. \<^verbatim>\<open>isOwner\<close> never returns false: it throws. At the
  directory \<open>foreign\<close>, \<^verbatim>\<open>delete\<close> of a file that exists throws the ownership error, and
  the promise of \<^verbatim>\<open>write\<close> is rejected with it.
\<close>

theorem nonowner_mutation_not_silent:
  "\<not> includes_str (dbId foreign) (localId foreign) \<and>
   Directory_exists foreign ''f'' \<and>
   fst (Directory_delete foreign ''f'') =
     Inl (PermissionDenied ''ACM:FS.ANN_CORE.LOGS'' ''BOB_MOD'') \<and>
   fst (Directory_write literals foreign ''g'' JTrue True) =
     Inl (PermissionDenied ''ACM:FS.ANN_CORE.LOGS'' ''BOB_MOD'')"
  by (simp add: dir_eval)

text \<open>
  C1, as amended. On a Directory whose owner id is not a substring of its \<open>dbId\<close>, each
  of \<^verbatim>\<open>write\<close>, \<^verbatim>\<open>delete\<close>, \<^verbatim>\<open>rename\<close> and \<^verbatim>\<open>copy\<close> leaves the ledger unchanged and
  fails: with the error of its existence check when that check fails, and with the
  ownership error of \<^verbatim>\<open>isOwner\<close> otherwise (for \<^verbatim>\<open>write\<close>, as the rejection of its
  promise).
\<close>

theorem nonowner_mutation_raises:
  assumes "\<not> includes_str (dbId d) (localId d)"
  shows "Directory_write J d f c allowOverwrite =
           (Inl (if Directory_exists d f \<and> \<not> allowOverwrite then AlreadyExists f
                 else PermissionDenied (dbId d) (localId d)), d)
       \<and> Directory_delete d f =
           (Inl (if \<not> Directory_exists d f then NotFound f
                 else PermissionDenied (dbId d) (localId d)), d)
       \<and> Directory_rename J d old new =
           (Inl (if \<not> Directory_exists d old then NotFound old
                 else if Directory_exists d new then AlreadyExists new
                 else PermissionDenied (dbId d) (localId d)), d)
       \<and> Directory_copy J d src dst =
           (Inl (if \<not> Directory_exists d src then NotFound src
                 else if Directory_exists d dst then AlreadyExists dst
                 else PermissionDenied (dbId d) (localId d)), d)"
  using isOwner_refuses [OF assms]
  by (simp add: Directory_write_def Directory_delete_def Directory_rename_def Directory_copy_def)

theorem nonowner_mutation_raises_witness:
  "\<not> includes_str (dbId foreign) (localId foreign) \<and>
   Directory_write literals foreign ''f'' JNull False = (Inl (AlreadyExists ''f''), foreign) \<and>
   Directory_write literals foreign ''f'' JNull True =
     (Inl (PermissionDenied ''ACM:FS.ANN_CORE.LOGS'' ''BOB_MOD''), foreign) \<and>
   Directory_delete foreign ''f'' =
     (Inl (PermissionDenied ''ACM:FS.ANN_CORE.LOGS'' ''BOB_MOD''), foreign) \<and>
   Directory_rename literals foreign ''f'' ''g'' =
     (Inl (PermissionDenied ''ACM:FS.ANN_CORE.LOGS'' ''BOB_MOD''), foreign) \<and>
   Directory_copy literals foreign ''g'' ''h'' = (Inl (NotFound ''g''), foreign)"
  using nonowner_mutation_raises [where d = foreign and J = literals and f = "''f''"
      and c = JNull and allowOverwrite = False and old = "''f''" and new = "''g''"
      and src = "''g''" and dst = "''h''"]
    nonowner_mutation_raises [where d = foreign and J = literals and f = "''f''"
      and c = JNull and allowOverwrite = True]
  by (simp add: dir_eval)

section \<open>Directory: write and read\<close>

lemma write_fresh:
  assumes own: "includes_str (dbId d) (localId d)" and fresh: "\<not> Directory_exists d f"
  shows "Directory_write J d f c ow =
           (Inr (), d\<lparr>objective := (objective d)\<lparr>participants :=
              participants (objective d) @
                [(f @ '':'' @ stringify J c, int (length (participants (objective d))))]\<rparr>\<rparr>)"
proof -
  have "prefix (f @ '':'') (f @ '':'' @ stringify J c)"
    by (simp add: prefix_def)
  then have "f @ '':'' @ stringify J c \<notin> set (map displayName (participants (objective d)))"
    using fresh unfolding exists_iff displayName_def by force
  then show ?thesis
    using fresh isOwner_owned [OF own]
    by (simp add: Directory_write_def setScore_def getParticipants_def Let_def)
qed

lemma read_fresh_entry:
  assumes "\<not> Directory_exists d f" and "parse J (stringify J c) = Some c"
  shows "Directory_read J
           (d\<lparr>objective := (objective d)\<lparr>participants :=
              participants (objective d) @ [(f @ '':'' @ stringify J c, n)]\<rparr>\<rparr>) f = Inr c"
proof -
  have none: "find (\<lambda>p. startsWith (displayName p) (f @ '':'')) (participants (objective d)) = None"
    using assms(1) unfolding Directory_exists_def getKeyIdentity_def getParticipants_def by blast
  have r: "replace (f @ '':'' @ stringify J c) (f @ '':'') '''' = stringify J c"
    using replace_prefix [of "f @ '':''" "stringify J c" "''''"] by simp
  show ?thesis
    using none r assms(2)
    by (simp add: Directory_read_def Directory_exists_def getKeyIdentity_def getParticipants_def
        find_snoc startsWith_def displayName_def getKeyData_def)
qed

text \<open>
  Writing under a name that no entry matches and reading it back gives the content.
\<close>

lemma write_read_fresh:
  assumes "includes_str (dbId d) (localId d)" and "\<not> Directory_exists d f"
    and "faithful J"
  shows "\<exists>d'. Directory_write J d f c ow = (Inr (), d') \<and> Directory_read J d' f = Inr c"
proof -
  have "parse J (stringify J c) = Some c" using assms(3) by (simp add: faithful_def)
  from read_fresh_entry [OF assms(2) this] show ?thesis
    unfolding write_fresh [OF assms(1,2)] by blast
qed

text \<open>
  C2 (code bug). The claim: after \<^verbatim>\<open>write(f,c1)\<close> and \<^verbatim>\<open>write(f,c2)\<close> with
  \<open>allowOverwrite\<close> true, \<^verbatim>\<open>read(f)\<close> returns \<open>c2\<close>, the old entry having been removed; with
  \<open>allowOverwrite\<close> false the second write fails and \<^verbatim>\<open>read(f)\<close> returns \<open>c1\<close>. On the
  empty directory \<open>home\<close>, writing \<^verbatim>\<open>true\<close> and then \<^verbatim>\<open>false\<close> under \<^verbatim>\<open>f\<close> leaves both
  entries in the ledger, and \<^verbatim>\<open>read\<close> returns \<^verbatim>\<open>true\<close>, the content of the older entry.
  The second half of the claim holds there.
\<close>

theorem overwrite_reads_old_content:
  "Directory_write literals home ''f'' JTrue True = (Inr (), holding [(''f:true'', 0)]) \<and>
   Directory_write literals (holding [(''f:true'', 0)]) ''f'' JFalse True =
     (Inr (), holding [(''f:true'', 0), (''f:false'', 1)]) \<and>
   Directory_read literals (holding [(''f:true'', 0), (''f:false'', 1)]) ''f'' = Inr JTrue \<and>
   Directory_write literals (holding [(''f:true'', 0)]) ''f'' JFalse False =
     (Inl (AlreadyExists ''f''), holding [(''f:true'', 0)]) \<and>
   Directory_read literals (holding [(''f:true'', 0)]) ''f'' = Inr JTrue"
  by (simp add: dir_eval)

text \<open>
  C3 (code bug). The claim: on every owned Directory, \<^verbatim>\<open>write(f,c)\<close> and then \<^verbatim>\<open>read(f)\<close>
  returns \<open>c\<close>. On the directory that holds \<^verbatim>\<open>notes\<close> with content \<^verbatim>\<open>null\<close>, writing
  \<^verbatim>\<open>true\<close> under \<^verbatim>\<open>notes\<close> (overwriting allowed) succeeds and \<^verbatim>\<open>read\<close> returns \<^verbatim>\<open>null\<close>.
\<close>

theorem write_read_stale_content:
  "includes_str (dbId (holding [(''notes:null'', 0)])) (localId (holding [(''notes:null'', 0)])) \<and>
   Directory_write literals (holding [(''notes:null'', 0)]) ''notes'' JTrue True =
     (Inr (), holding [(''notes:null'', 0), (''notes:true'', 1)]) \<and>
   Directory_read literals (holding [(''notes:null'', 0), (''notes:true'', 1)]) ''notes'' =
     Inr JNull"
  by (simp add: dir_eval)

section \<open>Directory: delete\<close>

lemma delete_owned:
  assumes own: "includes_str (dbId d) (localId d)" and ex: "Directory_exists d f"
  shows "\<exists>i. getKeyIdentity d f = Some i \<and>
             Directory_delete d f = (Inr (), d\<lparr>objective := removeParticipant (objective d) i\<rparr>)"
proof -
  from ex obtain i where i: "getKeyIdentity d f = Some i"
    unfolding Directory_exists_def by blast
  show ?thesis
    using ex i isOwner_owned [OF own] by (simp add: Directory_delete_def)
qed

lemma delete_success:
  assumes "Directory_delete d f = (Inr (), d')"
  shows "\<exists>i. getKeyIdentity d f = Some i \<and> includes_str (dbId d) (localId d) \<and>
             d' = d\<lparr>objective := removeParticipant (objective d) i\<rparr>"
proof -
  have ex: "Directory_exists d f"
    using assms by (auto simp: Directory_delete_def split: if_splits)
  have own: "includes_str (dbId d) (localId d)"
    using assms ex by (auto simp: Directory_delete_def isOwner_def split: if_splits)
  from delete_owned [OF own ex] assms own show ?thesis by auto
qed

lemma find_after_remove:
  assumes f: "find P ps = Some i" and one: "length (filter P ps) = 1"
  shows "find P (filter (\<lambda>q. fst q \<noteq> fst i) ps) = None"
proof -
  from one obtain x where x: "filter P ps = [x]"
    by (cases "filter P ps") auto
  from f have "i \<in> set ps" "P i" by (auto simp: find_Some_iff)
  then have "i \<in> set (filter P ps)" by simp
  then have xi: "x = i" using x by simp
  have "\<And>q. q \<in> set ps \<Longrightarrow> P q \<Longrightarrow> q = i"
  proof -
    fix q assume "q \<in> set ps" "P q"
    then have "q \<in> set (filter P ps)" by simp
    then show "q = i" using x xi by simp
  qed
  then show ?thesis unfolding find_None_iff by auto
qed

lemma removed_absent:
  assumes i: "getKeyIdentity d f = Some i" and one: "length (entriesFor d f) = 1"
  shows "\<not> Directory_exists (d\<lparr>objective := removeParticipant (objective d) i\<rparr>) f"
  using find_after_remove [of "\<lambda>p. startsWith (displayName p) (f @ '':'')"
      "participants (objective d)" i] i one
  by (simp add: Directory_exists_def getKeyIdentity_def getParticipants_def entriesFor_def
      removeParticipant_def displayName_def)

lemma removed_keeps_missing:
  assumes "\<not> Directory_exists d g"
  shows "\<not> Directory_exists (d\<lparr>objective := removeParticipant (objective d) i\<rparr>) g"
  using assms unfolding exists_iff by (auto simp: removeParticipant_def)

text \<open>
  C4 (corrected). The claim: \<^verbatim>\<open>delete(f)\<close> fails with NotFound when no entry for \<open>f\<close>
  exists, and after a successful \<^verbatim>\<open>delete(f)\<close>, \<^verbatim>\<open>exists(f)\<close> is false and \<^verbatim>\<open>read(f)\<close> fails
  with NotFound. A file is found by the prefix \<^verbatim>\<open>f:\<close> of its entry, and \<^verbatim>\<open>delete\<close>
  removes the first entry found. After \<^verbatim>\<open>write("a:b", true)\<close> and \<^verbatim>\<open>write("a", false)\<close> on
  the empty directory, \<^verbatim>\<open>delete("a")\<close> succeeds, removes the entry of \<^verbatim>\<open>a:b\<close>, and
  \<^verbatim>\<open>a\<close> still exists and is read.
\<close>

theorem delete_leaves_shadowed_entry:
  "Directory_write literals home ''a:b'' JTrue True = (Inr (), holding [(''a:b:true'', 0)]) \<and>
   Directory_write literals (holding [(''a:b:true'', 0)]) ''a'' JFalse True =
     (Inr (), holding [(''a:b:true'', 0), (''a:false'', 1)]) \<and>
   Directory_delete (holding [(''a:b:true'', 0), (''a:false'', 1)]) ''a'' =
     (Inr (), holding [(''a:false'', 1)]) \<and>
   Directory_exists (holding [(''a:false'', 1)]) ''a'' \<and>
   Directory_read literals (holding [(''a:false'', 1)]) ''a'' = Inr JFalse"
  by (simp add: dir_eval)

text \<open>
  C4, as amended. \<^verbatim>\<open>delete(f)\<close> fails with NotFound when no entry for \<open>f\<close> exists; on an
  owned Directory it succeeds when one exists; and after a successful \<^verbatim>\<open>delete(f)\<close> on a
  Directory in which exactly one entry starts with \<^verbatim>\<open>f:\<close>, \<^verbatim>\<open>exists(f)\<close> is false and
  \<^verbatim>\<open>read(f)\<close> fails with NotFound.
\<close>

theorem delete_then_absent:
  "(\<not> Directory_exists d f \<longrightarrow> Directory_delete d f = (Inl (NotFound f), d)) \<and>
   (includes_str (dbId d) (localId d) \<and> Directory_exists d f \<longrightarrow>
      (\<exists>d1. Directory_delete d f = (Inr (), d1))) \<and>
   (Directory_delete d f = (Inr (), d') \<and> length (entriesFor d f) = 1 \<longrightarrow>
      \<not> Directory_exists d' f \<and> Directory_read J d' f = Inl (NotFound f))"
proof (intro conjI impI)
  assume "\<not> Directory_exists d f"
  then show "Directory_delete d f = (Inl (NotFound f), d)"
    by (simp add: Directory_delete_def)
next
  assume "includes_str (dbId d) (localId d) \<and> Directory_exists d f"
  then show "\<exists>d1. Directory_delete d f = (Inr (), d1)"
    using delete_owned [of d f] by blast
next
  assume a: "Directory_delete d f = (Inr (), d') \<and> length (entriesFor d f) = 1"
  then obtain i where i: "getKeyIdentity d f = Some i"
    and d': "d' = d\<lparr>objective := removeParticipant (objective d) i\<rparr>"
    using delete_success [of d f d'] by blast
  show "\<not> Directory_exists d' f"
    using removed_absent [OF i] a d' by simp
  then show "Directory_read J d' f = Inl (NotFound f)"
    by (rule read_absent)
qed

theorem delete_then_absent_witness:
  "\<not> Directory_exists home ''f'' \<and>
   Directory_delete home ''f'' = (Inl (NotFound ''f''), home) \<and>
   includes_str (dbId (holding [(''f:true'', 0)])) (localId (holding [(''f:true'', 0)])) \<and>
   Directory_exists (holding [(''f:true'', 0)]) ''f'' \<and>
   Directory_delete (holding [(''f:true'', 0)]) ''f'' = (Inr (), holding []) \<and>
   length (entriesFor (holding [(''f:true'', 0)]) ''f'') = 1 \<and>
   \<not> Directory_exists (holding []) ''f'' \<and>
   Directory_read literals (holding []) ''f'' = Inl (NotFound ''f'')"
  using delete_then_absent [where d = home and f = "''f''"]
    delete_then_absent [where d = "holding [(''f:true'', 0)]" and f = "''f''"
      and d' = "holding []" and J = literals]
  by (simp add: dir_eval)

section \<open>Directory: rename\<close>

lemma appended_label_no_match:
  assumes old: "Directory_exists d old" and new: "\<not> Directory_exists d new"
    and np: "\<not> prefix (old @ '':'') (new @ '':'')"
  shows "\<not> prefix (old @ '':'') (new @ '':'' @ s)"
proof
  assume p: "prefix (old @ '':'') (new @ '':'' @ s)"
  have q: "prefix (new @ '':'') (new @ '':'' @ s)" by (simp add: prefix_def)
  from p q have "prefix (old @ '':'') (new @ '':'') \<or> prefix (new @ '':'') (old @ '':'')"
    using prefix_same_cases by blast
  with np have n: "prefix (new @ '':'') (old @ '':'')" by blast
  from old obtain e where e: "e \<in> set (participants (objective d))" "prefix (old @ '':'') (fst e)"
    unfolding exists_iff by blast
  from n e(2) have "prefix (new @ '':'') (fst e)" by (rule prefix_order.trans)
  with e(1) new show False unfolding exists_iff by blast
qed

text \<open>
  C5 (corrected). The claim: \<^verbatim>\<open>rename(old,new)\<close> fails with AlreadyExists when \<open>new\<close>
  exists and with NotFound when \<open>old\<close> does not; when \<open>old\<close> exists and \<open>new\<close> does not,
  afterwards \<^verbatim>\<open>exists(old)\<close> is false, \<^verbatim>\<open>exists(new)\<close> is true and \<^verbatim>\<open>read(new)\<close> returns the
  old content. On the directory that holds only \<^verbatim>\<open>a\<close>, \<^verbatim>\<open>rename("a", "a:b")\<close> succeeds and
  \<^verbatim>\<open>a\<close> exists afterwards: the new entry starts with \<^verbatim>\<open>a:\<close>. And when \<open>old\<close> does not
  exist while \<open>new\<close> does, the error is NotFound, the check of \<open>old\<close> coming first.
\<close>

theorem rename_to_extension_keeps_old:
  "Directory_exists (holding [(''a:true'', 0)]) ''a'' \<and>
   \<not> Directory_exists (holding [(''a:true'', 0)]) ''a:b'' \<and>
   Directory_rename literals (holding [(''a:true'', 0)]) ''a'' ''a:b'' =
     (Inr (), holding [(''a:b:true'', 0)]) \<and>
   Directory_exists (holding [(''a:b:true'', 0)]) ''a'' \<and>
   \<not> Directory_exists (holding [(''b:true'', 0)]) ''a'' \<and>
   Directory_exists (holding [(''b:true'', 0)]) ''b'' \<and>
   Directory_rename literals (holding [(''b:true'', 0)]) ''a'' ''b'' =
     (Inl (NotFound ''a''), holding [(''b:true'', 0)])"
  by (simp add: dir_eval)

text \<open>
  C5, as amended. \<^verbatim>\<open>rename(old,new)\<close> fails with NotFound when \<open>old\<close> does not exist, and
  with AlreadyExists when \<open>old\<close> exists and \<open>new\<close> exists. On an owned Directory where
  \<^verbatim>\<open>read(old)\<close> returns \<open>c\<close>, \<open>new\<close> does not exist, exactly one entry starts with
  \<^verbatim>\<open>old:\<close> and \<^verbatim>\<open>new:\<close> does not start with \<^verbatim>\<open>old:\<close>, \<^verbatim>\<open>rename\<close> succeeds, and
  afterwards \<^verbatim>\<open>exists(old)\<close> is false, \<^verbatim>\<open>exists(new)\<close> is true and \<^verbatim>\<open>read(new)\<close> returns \<open>c\<close>.
\<close>

theorem rename_moves_file:
  "(\<not> Directory_exists d old \<longrightarrow> Directory_rename J d old new = (Inl (NotFound old), d)) \<and>
   (Directory_exists d old \<and> Directory_exists d new \<longrightarrow>
      Directory_rename J d old new = (Inl (AlreadyExists new), d)) \<and>
   (includes_str (dbId d) (localId d) \<and> faithful J \<and> Directory_read J d old = Inr c \<and>
    \<not> Directory_exists d new \<and> length (entriesFor d old) = 1 \<and>
    \<not> prefix (old @ '':'') (new @ '':'') \<longrightarrow>
      (\<exists>d'. Directory_rename J d old new = (Inr (), d') \<and>
            \<not> Directory_exists d' old \<and> Directory_exists d' new \<and>
            Directory_read J d' new = Inr c))"
proof (intro conjI impI)
  assume "\<not> Directory_exists d old"
  then show "Directory_rename J d old new = (Inl (NotFound old), d)"
    by (simp add: Directory_rename_def)
next
  assume "Directory_exists d old \<and> Directory_exists d new"
  then show "Directory_rename J d old new = (Inl (AlreadyExists new), d)"
    by (simp add: Directory_rename_def)
next
  assume a: "includes_str (dbId d) (localId d) \<and> faithful J \<and> Directory_read J d old = Inr c \<and>
    \<not> Directory_exists d new \<and> length (entriesFor d old) = 1 \<and>
    \<not> prefix (old @ '':'') (new @ '':'')"
  then have own: "includes_str (dbId d) (localId d)" and J: "faithful J"
    and rd: "Directory_read J d old = Inr c" and new: "\<not> Directory_exists d new"
    and one: "length (entriesFor d old) = 1" and np: "\<not> prefix (old @ '':'') (new @ '':'')"
    by simp_all
  from read_data [OF rd] obtain i where i: "getKeyIdentity d old = Some i"
    and data: "getKeyData J old i = Inr c" by blast
  have old: "Directory_exists d old" using i by (simp add: Directory_exists_def)
  define d1 where "d1 = d\<lparr>objective := removeParticipant (objective d) i\<rparr>"
  have del: "Directory_delete d old = (Inr (), d1)"
    using delete_owned [OF own old] i by (simp add: d1_def)
  have own1: "includes_str (dbId d1) (localId d1)" using own by (simp add: d1_def)
  have new1: "\<not> Directory_exists d1 new"
    unfolding d1_def by (rule removed_keeps_missing [OF new])
  have old1: "\<not> Directory_exists d1 old"
    unfolding d1_def by (rule removed_absent [OF i one])
  define d2 where "d2 = d1\<lparr>objective := (objective d1)\<lparr>participants :=
              participants (objective d1) @
                [(new @ '':'' @ stringify J c, int (length (participants (objective d1))))]\<rparr>\<rparr>"
  have wr: "Directory_write J d1 new c True = (Inr (), d2)"
    unfolding d2_def by (rule write_fresh [OF own1 new1])
  have ren: "Directory_rename J d old new = (Inr (), d2)"
    using old new isOwner_owned [OF own] i data del wr by (simp add: Directory_rename_def)
  have pc: "parse J (stringify J c) = Some c" using J by (simp add: faithful_def)
  have rd2: "Directory_read J d2 new = Inr c"
    unfolding d2_def by (rule read_fresh_entry [OF new1 pc])
  then have new2: "Directory_exists d2 new"
    by (auto simp: Directory_read_def split: if_splits)
  have nm: "\<not> prefix (old @ '':'') (new @ '':'' @ stringify J c)"
    by (rule appended_label_no_match [OF old new np])
  have old2: "\<not> Directory_exists d2 old"
    using old1 nm unfolding exists_iff d2_def by auto
  from ren old2 new2 rd2 show "\<exists>d'. Directory_rename J d old new = (Inr (), d') \<and>
            \<not> Directory_exists d' old \<and> Directory_exists d' new \<and>
            Directory_read J d' new = Inr c" by blast
qed

theorem rename_moves_file_witness:
  "\<not> Directory_exists home ''a'' \<and>
   Directory_rename literals home ''a'' ''b'' = (Inl (NotFound ''a''), home) \<and>
   Directory_exists (holding [(''a:true'', 0), (''b:null'', 1)]) ''a'' \<and>
   Directory_exists (holding [(''a:true'', 0), (''b:null'', 1)]) ''b'' \<and>
   Directory_rename literals (holding [(''a:true'', 0), (''b:null'', 1)]) ''a'' ''b'' =
     (Inl (AlreadyExists ''b''), holding [(''a:true'', 0), (''b:null'', 1)]) \<and>
   includes_str (dbId (holding [(''a:true'', 0)])) (localId (holding [(''a:true'', 0)])) \<and>
   faithful literals \<and>
   Directory_read literals (holding [(''a:true'', 0)]) ''a'' = Inr JTrue \<and>
   \<not> Directory_exists (holding [(''a:true'', 0)]) ''b'' \<and>
   length (entriesFor (holding [(''a:true'', 0)]) ''a'') = 1 \<and>
   \<not> prefix (''a'' @ '':'') (''b'' @ '':'') \<and>
   Directory_rename literals (holding [(''a:true'', 0)]) ''a'' ''b'' =
     (Inr (), holding [(''b:true'', 0)]) \<and>
   \<not> Directory_exists (holding [(''b:true'', 0)]) ''a'' \<and>
   Directory_exists (holding [(''b:true'', 0)]) ''b'' \<and>
   Directory_read literals (holding [(''b:true'', 0)]) ''b'' = Inr JTrue"
  using rename_moves_file [where d = home and old = "''a''" and new = "''b''" and J = literals]
    rename_moves_file [where d = "holding [(''a:true'', 0), (''b:null'', 1)]" and old = "''a''"
      and new = "''b''" and J = literals]
    rename_moves_file [where d = "holding [(''a:true'', 0)]" and old = "''a''"
      and new = "''b''" and J = literals and c = JTrue]
    literals_faithful
  by (simp add: dir_eval)

section \<open>The signal bus: emit\<close>

lemma deliver_step:
  "try_catch (invoke K funs cb event) (console_error L) st =
     (Inr (),
      st\<lparr>calls := calls st @ [(K, cb)], app := snd (funs cb event (app st)),
         console := console st @
           (case fst (funs cb event (app st)) of None \<Rightarrow> [] | Some x \<Rightarrow> [(L, x)])\<rparr>)"
  by (cases "funs cb event (app st)")
     (auto simp: try_catch_def invoke_def console_error_def split: option.splits)

lemma deliver_all:
  "\<exists>st'. for_of cbs (\<lambda>cb. try_catch (invoke K funs cb event) (console_error L)) st = (Inr (), st')
     \<and> calls st' = calls st @ map (Pair K) cbs
     \<and> console st' = console st @ map (Pair L) (thrown funs event cbs (app st))
     \<and> subscribers st' = subscribers st \<and> created st' = created st
     \<and> app st' = ran funs event cbs (app st)"
proof (induction cbs arbitrary: st)
  case Nil
  show ?case by simp
next
  case (Cons cb cbs)
  define st1 where "st1 = st\<lparr>calls := calls st @ [(K, cb)], app := snd (funs cb event (app st)),
         console := console st @
           (case fst (funs cb event (app st)) of None \<Rightarrow> [] | Some x \<Rightarrow> [(L, x)])\<rparr>"
  from Cons.IH [of st1] obtain st' where
    s: "for_of cbs (\<lambda>cb. try_catch (invoke K funs cb event) (console_error L)) st1 = (Inr (), st')"
    and c: "calls st' = calls st1 @ map (Pair K) cbs"
    and e: "console st' = console st1 @ map (Pair L) (thrown funs event cbs (app st1))"
    and u: "subscribers st' = subscribers st1" "created st' = created st1"
    and r: "app st' = ran funs event cbs (app st1)"
    by blast
  have step: "try_catch (invoke K funs cb event) (console_error L) st = (Inr (), st1)"
    unfolding st1_def by (rule deliver_step)
  have "for_of (cb # cbs) (\<lambda>cb. try_catch (invoke K funs cb event) (console_error L)) st = (Inr (), st')"
    using step s by simp
  moreover have "calls st' = calls st @ map (Pair K) (cb # cbs)"
    using c by (simp add: st1_def)
  moreover have "console st' = console st @ map (Pair L) (thrown funs event (cb # cbs) (app st))"
    using e by (cases "funs cb event (app st)") (auto simp: st1_def split: option.splits)
  moreover have "subscribers st' = subscribers st" "created st' = created st"
    using u by (simp_all add: st1_def)
  moreover have "app st' = ran funs event (cb # cbs) (app st)"
    using r by (simp add: st1_def)
  ultimately show ?case by blast
qed

lemma emit_result:
  "\<exists>st'. emit K funs event st = (Inr (), st')
     \<and> calls st' = calls st @ map (Pair K) (subscribers st K)
     \<and> console st' = console st @
          map (Pair (errorLabel K)) (thrown funs event (subscribers st K) (app st))
     \<and> subscribers st' = subscribers st \<and> created st' = created st
     \<and> app st' = ran funs event (subscribers st K) (app st)"
  unfolding emit_def by (rule deliver_all)

lemma count_pair: "count_list (map (Pair K) xs) (K, x) = count_list xs x"
  by (induction xs) auto

lemma emit_invocations:
  "invocations K cb st (snd (emit K funs event st)) = count_list (subscribers st K) cb"
  using emit_result [of K funs event st] by (auto simp: invocations_def count_pair)

lemma emit_subscribers: "subscribers (snd (emit K funs event st)) = subscribers st"
  using emit_result [of K funs event st] by auto

lemma emit_app:
  "app (snd (emit K funs event st)) = ran funs event (subscribers st K) (app st)"
  using emit_result [of K funs event st] by auto

lemma emit_console:
  "console (snd (emit K funs event st)) =
     console st @ map (Pair (errorLabel K)) (thrown funs event (subscribers st K) (app st))"
  using emit_result [of K funs event st] by auto

lemma ran_snoc:
  "ran funs event (cbs @ [cb]) a = snd (funs cb event (ran funs event cbs a))"
  by (induction cbs arbitrary: a) auto

lemma thrown_snoc:
  "thrown funs event (cbs @ [cb]) a =
     thrown funs event cbs a @
       (case fst (funs cb event (ran funs event cbs a)) of None \<Rightarrow> [] | Some x \<Rightarrow> [x])"
proof (induction cbs arbitrary: a)
  case Nil
  show ?case by (cases "funs cb event a") (auto split: option.splits)
next
  case (Cons c cbs)
  show ?case
    using Cons.IH [of "snd (funs c event a)"]
    by (cases "funs c event a") (auto split: option.splits)
qed

text \<open>
  C7 (confirmed). For each signal class, \<^verbatim>\<open>emit\<close> never throws, whatever the callbacks
  throw; it calls every subscriber of the class, in the order of the set, those after a
  throwing one included; and it reports to the console, under the label of the class,
  each value thrown, in that order.
\<close>

theorem emit_isolates_throwing_subscribers:
  "fst (emit K funs event st) = Inr () \<and>
   calls (snd (emit K funs event st)) = calls st @ map (Pair K) (subscribers st K) \<and>
   console (snd (emit K funs event st)) =
     console st @ map (Pair (errorLabel K)) (thrown funs event (subscribers st K) (app st))"
  using emit_result [of K funs event st] by auto

theorem emit_isolates_throwing_subscribers_witness:
  "emit OnAddonReadyEventSignal noisy 7 (listening [1, 2]) =
     (Inr (), (listening [1, 2])
        \<lparr>console := [(''Error @ACM:OnAddonReadyEvent global subscriber:'', ''boom'')],
         calls := [(OnAddonReadyEventSignal, 1), (OnAddonReadyEventSignal, 2)], app := 14\<rparr>)"
  using emit_isolates_throwing_subscribers [where K = OnAddonReadyEventSignal and funs = noisy
      and event = 7 and st = "listening [1, 2]"]
  by (simp add: bus_eval)

section \<open>The signal bus: subscriptions\<close>

lemma count_distinct: "distinct xs \<Longrightarrow> count_list xs x = (if x \<in> set xs then 1 else 0)"
  by (induction xs) auto

lemma count_Set_add:
  "distinct xs \<Longrightarrow> count_list (Set_add (Set_add xs x) x) x = 1"
  by (simp add: Set_add_def count_distinct)

lemma count_Set_delete: "count_list (Set_delete xs x) x = 0"
  by (simp add: Set_delete_def count_list_0_iff)

lemma Set_add_twice: "Set_add (Set_add xs x) x = Set_add xs x"
  by (simp add: Set_add_def)

lemma Set_add_new: "x \<notin> set xs \<Longrightarrow> Set_add xs x = xs @ [x]"
  by (simp add: Set_add_def)

lemma distinct_Set_add: "distinct xs \<Longrightarrow> distinct (Set_add xs x)"
  by (simp add: Set_add_def)

lemma distinct_Set_delete: "distinct xs \<Longrightarrow> distinct (Set_delete xs x)"
  by (simp add: Set_delete_def)

text \<open>
  C6 (confirmed). For each signal class whose subscribers form a set: after the same
  callback is subscribed twice (through any instances of the class) it is in the set
  exactly once, and each following \<^verbatim>\<open>emit\<close> of the class calls it exactly once; after it
  is unsubscribed it is not in the set, and the following emits do not call it.

  The calls are not only counted in the log: the application state and the console
  after an \<^verbatim>\<open>emit\<close> are those that running the functions of the subscribers leaves, each
  applied once, in the order of the set. When the callback was not subscribed before, the
  state after the first \<^verbatim>\<open>emit\<close> is the one its function leaves, applied once, after the
  earlier subscribers; after the unsubscription its function is no longer among those run.
\<close>

theorem subscribe_twice_invoked_once:
  assumes "distinct (subscribers st K)"
  shows "(let st2 = snd (subscribe (K, i) cb (snd (subscribe (K, j) cb st)));
              st3 = snd (emit K funs event st2);
              st4 = unsubscribe (K, l) cb st3;
              st5 = snd (emit K funs event' st4)
          in count_list (subscribers st2 K) cb = 1 \<and>
             invocations K cb st2 st3 = 1 \<and>
             invocations K cb st3 (snd (emit K funs event' st3)) = 1 \<and>
             cb \<notin> set (subscribers st4 K) \<and>
             invocations K cb st4 st5 = 0 \<and>
             invocations K cb st5 (snd (emit K funs event'' st5)) = 0 \<and>
             subscribers st2 K = Set_add (subscribers st K) cb \<and>
             app st3 = ran funs event (subscribers st2 K) (app st) \<and>
             console st3 =
               console st @
                 map (Pair (errorLabel K)) (thrown funs event (subscribers st2 K) (app st)) \<and>
             (cb \<notin> set (subscribers st K) \<longrightarrow>
                app st3 = snd (funs cb event (ran funs event (subscribers st K) (app st))) \<and>
                console st3 =
                  console st @
                    map (Pair (errorLabel K))
                      (thrown funs event (subscribers st K) (app st) @
                         (case fst (funs cb event (ran funs event (subscribers st K) (app st))) of
                            None \<Rightarrow> []
                          | Some x \<Rightarrow> [x]))) \<and>
             app (snd (emit K funs event' st3)) =
               ran funs event' (subscribers st2 K) (app st3) \<and>
             subscribers st4 K = Set_delete (subscribers st2 K) cb \<and>
             app st5 = ran funs event' (subscribers st4 K) (app st3) \<and>
             console st5 =
               console st3 @
                 map (Pair (errorLabel K)) (thrown funs event' (subscribers st4 K) (app st3)))"
proof -
  define st2 where "st2 = snd (subscribe (K, i) cb (snd (subscribe (K, j) cb st)))"
  define st3 where "st3 = snd (emit K funs event st2)"
  define st4 where "st4 = unsubscribe (K, l) cb st3"
  define st5 where "st5 = snd (emit K funs event' st4)"
  have s2: "subscribers st2 K = Set_add (subscribers st K) cb"
    and a2: "app st2 = app st" and c2: "console st2 = console st"
    by (simp_all add: st2_def subscribe_def Set_add_twice)
  have one: "count_list (subscribers st2 K) cb = 1"
    using assms by (simp add: st2_def subscribe_def count_Set_add)
  have s3: "subscribers st3 = subscribers st2"
    unfolding st3_def by (rule emit_subscribers)
  have a3: "app st3 = ran funs event (subscribers st2 K) (app st)"
    by (simp add: st3_def emit_app a2)
  have c3: "console st3 =
      console st @ map (Pair (errorLabel K)) (thrown funs event (subscribers st2 K) (app st))"
    by (simp add: st3_def emit_console a2 c2)
  have s4: "subscribers st4 K = Set_delete (subscribers st2 K) cb"
    and a4: "app st4 = app st3" and c4: "console st4 = console st3"
    by (simp_all add: st4_def unsubscribe_def s3)
  have gone: "cb \<notin> set (subscribers st4 K)"
    unfolding s4 by (simp add: Set_delete_def)
  have s5: "subscribers st5 = subscribers st4"
    unfolding st5_def by (rule emit_subscribers)
  have a5: "app st5 = ran funs event' (subscribers st4 K) (app st3)"
    by (simp add: st5_def emit_app a4)
  have c5: "console st5 =
      console st3 @ map (Pair (errorLabel K)) (thrown funs event' (subscribers st4 K) (app st3))"
    by (simp add: st5_def emit_console a4 c4)
  have i3: "invocations K cb st2 st3 = 1"
    unfolding st3_def emit_invocations by (rule one)
  have i3': "invocations K cb st3 (snd (emit K funs event' st3)) = 1"
    unfolding emit_invocations s3 by (rule one)
  have i5: "invocations K cb st4 st5 = 0"
    unfolding st5_def emit_invocations using gone by simp
  have i5': "invocations K cb st5 (snd (emit K funs event'' st5)) = 0"
    unfolding emit_invocations s5 using gone by simp
  have a3': "app (snd (emit K funs event' st3)) = ran funs event' (subscribers st2 K) (app st3)"
    by (simp add: emit_app s3)
  have new: "cb \<notin> set (subscribers st K) \<longrightarrow>
       app st3 = snd (funs cb event (ran funs event (subscribers st K) (app st))) \<and>
       console st3 =
         console st @
           map (Pair (errorLabel K))
             (thrown funs event (subscribers st K) (app st) @
                (case fst (funs cb event (ran funs event (subscribers st K) (app st))) of
                   None \<Rightarrow> []
                 | Some x \<Rightarrow> [x]))"
  proof
    assume "cb \<notin> set (subscribers st K)"
    then have "subscribers st2 K = subscribers st K @ [cb]"
      unfolding s2 by (rule Set_add_new)
    then show "app st3 = snd (funs cb event (ran funs event (subscribers st K) (app st))) \<and>
       console st3 =
         console st @
           map (Pair (errorLabel K))
             (thrown funs event (subscribers st K) (app st) @
                (case fst (funs cb event (ran funs event (subscribers st K) (app st))) of
                   None \<Rightarrow> []
                 | Some x \<Rightarrow> [x]))"
      using a3 c3 by (simp add: ran_snoc thrown_snoc)
  qed
  from one i3 i3' gone i5 i5' s2 a3 c3 new a3' s4 a5 c5 show ?thesis
    unfolding Let_def st2_def [symmetric] st3_def [symmetric] st4_def [symmetric]
      st5_def [symmetric]
    by blast
qed

theorem subscribe_twice_invoked_once_witness:
  "distinct (subscribers (listening [2]) OnAddonReadyEventSignal) \<and>
   subscribers (snd (subscribe (OnAddonReadyEventSignal, 0) 1
       (snd (subscribe (OnAddonReadyEventSignal, 0) 1 (listening [2])))))
     OnAddonReadyEventSignal = [2, 1] \<and>
   invocations OnAddonReadyEventSignal 1 (listening [2, 1])
     (snd (emit OnAddonReadyEventSignal noisy 7 (listening [2, 1]))) = 1 \<and>
   unsubscribe (OnAddonReadyEventSignal, 0) 1 (listening [2, 1]) = listening [2] \<and>
   invocations OnAddonReadyEventSignal 1 (listening [2])
     (snd (emit OnAddonReadyEventSignal noisy 7 (listening [2]))) = 0 \<and>
   1 \<notin> set (subscribers (listening [2]) OnAddonReadyEventSignal) \<and>
   app (snd (emit OnAddonReadyEventSignal noisy 7 (listening [2, 1]))) = 14 \<and>
   console (snd (emit OnAddonReadyEventSignal noisy 7 (listening [2, 1]))) =
     [(''Error @ACM:OnAddonReadyEvent global subscriber:'', ''boom'')] \<and>
   app (snd (emit OnAddonReadyEventSignal noisy 7 (listening [2]))) = 7 \<and>
   console (snd (emit OnAddonReadyEventSignal noisy 7 (listening [2]))) = []"
  using subscribe_twice_invoked_once [where st = "listening [2]" and K = OnAddonReadyEventSignal
      and cb = 1 and i = 0 and j = 0 and l = 0 and funs = noisy and event = 7 and event' = 7
      and event'' = 7]
  by (simp add: bus_eval)

text \<open>
  C10 (confirmed). The subscribers of a signal class are one set for all its instances:
  subscribing or unsubscribing through one instance is the same as through another;
  creating instances leaves the sets as they are; a callback subscribed through one of
  two separately created instances is in the set of the class, is called by the
  \<^verbatim>\<open>emit\<close> of the class, and is removed by unsubscribing through the other instance; and
  the sets of the other classes are not touched.

  Called means run: after the \<^verbatim>\<open>emit\<close> of the class the application state and the
  console are those that running the functions of the class's subscribers leaves, the
  new callback among them; when it was not subscribed before, the state is the one its
  function leaves, applied once, after the earlier subscribers.
\<close>

theorem subscribers_are_static:
  "subscribe (K, i) cb st = subscribe (K, j) cb st \<and>
   unsubscribe (K, i) cb st = unsubscribe (K, j) cb st \<and>
   (let (s1, st1) = Signal_create K st; (s2, st2) = Signal_create K st1
    in s1 \<noteq> s2 \<and> fst s1 = K \<and> fst s2 = K \<and> subscribers st2 = subscribers st \<and>
       (let st3 = snd (subscribe s1 cb st2)
        in cb \<in> set (subscribers st3 K) \<and>
           0 < invocations K cb st3 (snd (emit K funs event st3)) \<and>
           cb \<notin> set (subscribers (unsubscribe s2 cb st3) K) \<and>
           subscribers st3 K = Set_add (subscribers st K) cb \<and>
           app (snd (emit K funs event st3)) = ran funs event (subscribers st3 K) (app st) \<and>
           console (snd (emit K funs event st3)) =
             console st @
               map (Pair (errorLabel K)) (thrown funs event (subscribers st3 K) (app st)) \<and>
           (cb \<notin> set (subscribers st K) \<longrightarrow>
              app (snd (emit K funs event st3)) =
                snd (funs cb event (ran funs event (subscribers st K) (app st)))))) \<and>
   (K' \<noteq> K \<longrightarrow> subscribers (snd (subscribe (K, i) cb st)) K' = subscribers st K')"
proof -
  define st3 where "st3 = snd (subscribe (K, created st) cb
      (st\<lparr>created := Suc (Suc (created st))\<rparr>))"
  have s3: "subscribers st3 K = Set_add (subscribers st K) cb"
    and a3: "app st3 = app st" and c3: "console st3 = console st"
    by (simp_all add: st3_def subscribe_def)
  have mem: "cb \<in> set (subscribers st3 K)"
    unfolding s3 by (simp add: Set_add_def)
  have inv: "0 < invocations K cb st3 (snd (emit K funs event st3))"
    unfolding emit_invocations using mem by (simp add: count_list_0_iff flip: neq0_conv)
  have gone: "cb \<notin> set (subscribers (unsubscribe (K, Suc (created st)) cb st3) K)"
    by (simp add: unsubscribe_def Set_delete_def)
  have a: "app (snd (emit K funs event st3)) = ran funs event (subscribers st3 K) (app st)"
    by (simp add: emit_app a3)
  have c: "console (snd (emit K funs event st3)) =
      console st @ map (Pair (errorLabel K)) (thrown funs event (subscribers st3 K) (app st))"
    by (simp add: emit_console a3 c3)
  have new: "cb \<notin> set (subscribers st K) \<longrightarrow>
      app (snd (emit K funs event st3)) =
        snd (funs cb event (ran funs event (subscribers st K) (app st)))"
    unfolding a s3 by (simp add: Set_add_new ran_snoc)
  have inst: "(let (s1, st1) = Signal_create K st; (s2, st2) = Signal_create K st1
    in s1 \<noteq> s2 \<and> fst s1 = K \<and> fst s2 = K \<and> subscribers st2 = subscribers st \<and>
       (let st3 = snd (subscribe s1 cb st2)
        in cb \<in> set (subscribers st3 K) \<and>
           0 < invocations K cb st3 (snd (emit K funs event st3)) \<and>
           cb \<notin> set (subscribers (unsubscribe s2 cb st3) K) \<and>
           subscribers st3 K = Set_add (subscribers st K) cb \<and>
           app (snd (emit K funs event st3)) = ran funs event (subscribers st3 K) (app st) \<and>
           console (snd (emit K funs event st3)) =
             console st @
               map (Pair (errorLabel K)) (thrown funs event (subscribers st3 K) (app st)) \<and>
           (cb \<notin> set (subscribers st K) \<longrightarrow>
              app (snd (emit K funs event st3)) =
                snd (funs cb event (ran funs event (subscribers st K) (app st))))))"
    using mem inv gone s3 a c new
    by (simp add: Signal_create_def Let_def st3_def)
  have same: "subscribe (K, i) cb st = subscribe (K, j) cb st \<and>
      unsubscribe (K, i) cb st = unsubscribe (K, j) cb st"
    by (simp add: subscribe_def unsubscribe_def)
  have other: "K' \<noteq> K \<longrightarrow> subscribers (snd (subscribe (K, i) cb st)) K' = subscribers st K'"
    by (simp add: subscribe_def)
  from same inst other show ?thesis by blast
qed

theorem subscribers_are_static_witness:
  "OnSettingsChangedEventSignal \<noteq> OnAddonReadyEventSignal \<and>
   subscribers (snd (subscribe (OnAddonReadyEventSignal, 0) 1 (listening [2])))
     OnSettingsChangedEventSignal = [] \<and>
   subscribers (snd (subscribe (OnAddonReadyEventSignal, 0) 1 (listening [2])))
     OnAddonReadyEventSignal = [2, 1] \<and>
   subscribers (snd (subscribe (OnAddonReadyEventSignal, 1) 1 (listening [2])))
     OnAddonReadyEventSignal = [2, 1] \<and>
   invocations OnAddonReadyEventSignal 1 (listening [2, 1])
     (snd (emit OnAddonReadyEventSignal noisy 7 (listening [2, 1]))) = 1 \<and>
   1 \<notin> set (subscribers (listening [2]) OnAddonReadyEventSignal) \<and>
   app (snd (emit OnAddonReadyEventSignal noisy 7 (listening [2, 1]))) = 14 \<and>
   console (snd (emit OnAddonReadyEventSignal noisy 7 (listening [2, 1]))) =
     [(''Error @ACM:OnAddonReadyEvent global subscriber:'', ''boom'')]"
  using subscribers_are_static [where K = OnAddonReadyEventSignal and i = 0 and j = 1
      and cb = 1 and st = "listening [2]" and funs = noisy and event = 7
      and K' = OnSettingsChangedEventSignal]
  by (simp add: bus_eval)

section \<open>The directory registry\<close>

lemma format_init:
  "addonData w = Some a \<Longrightarrow>
     FsSys_format w name =
       Inr (ROOT_DIR @ ''.'' @ toUpperCase (author a @ ''_'' @ packId a) @ ''.'' @ toUpperCase name)"
  by (simp add: FsSys_format_def FsSys_getLocalId_def)

lemma format_indep:
  "addonData w' = addonData w \<Longrightarrow> FsSys_format w' name = FsSys_format w name"
  by (simp add: FsSys_format_def FsSys_getLocalId_def)

lemma new_existing:
  assumes init: "addonData w = Some a" and n: "FsSys_format w name = Inr n"
    and ob: "getObjective (scoreboard w) n = Some ob"
  shows "\<exists>w1. FsDir_new w name ig =
           (Inr \<lparr>objective = ob, dbId = objectiveDisplayName ob,
                 localId = toUpperCase (author a @ ''_'' @ packId a)\<rparr>, w1)
         \<and> scoreboard w1 = scoreboard w \<and> addonData w1 = addonData w"
  using assms
  by (simp add: FsDir_new_def FsDir_isValid_def FsDir_get_def Directory_create_def
      FsSys_format_def FsSys_getLocalId_def)

lemma new_missing:
  assumes init: "addonData w = Some a" and n: "FsSys_format w name = Inr n"
    and ob: "getObjective (scoreboard w) n = None"
  shows "FsDir_new w name ig =
           (Inr \<lparr>objective = \<lparr>objectiveId = n, objectiveDisplayName = n, participants = []\<rparr>,
                 dbId = n, localId = toUpperCase (author a @ ''_'' @ packId a)\<rparr>,
            w\<lparr>scoreboard := (scoreboard w)(n \<mapsto>
                 \<lparr>objectiveId = n, objectiveDisplayName = n, participants = []\<rparr>)\<rparr>)"
  using assms
  by (simp add: FsDir_new_def FsDir_isValid_def FsDir_add_def addObjective_def
      Directory_create_def getObjective_def Let_def)

text \<open>
  C8 (confirmed). Once the addon is initialised, for every directory name: when a ledger
  named \<^verbatim>\<open>format(name)\<close> exists, \<^verbatim>\<open>new(name)\<close> raises no error and returns a Directory on
  that ledger, with its \<open>dbId\<close>, leaving the scoreboard as it is; calling \<^verbatim>\<open>new(name)\<close>
  twice gives two Directories on the same ledger with the same \<open>dbId\<close>, and that
  ledger is the one the scoreboard holds under \<^verbatim>\<open>format(name)\<close> after each call (when
  there was none before the first call, the first call has added it, under that id and
  display name); and after \<^verbatim>\<open>delete(name)\<close>, \<^verbatim>\<open>get(name)\<close> returns absent.
\<close>

theorem registry_new_returns_existing:
  assumes init: "addonData w = Some a"
  shows "(\<forall>n ob. FsSys_format w name = Inr n \<and> getObjective (scoreboard w) n = Some ob \<longrightarrow>
            (\<exists>d w1. FsDir_new w name ig = (Inr d, w1) \<and> objective d = ob \<and>
                     dbId d = objectiveDisplayName ob \<and> scoreboard w1 = scoreboard w)) \<and>
         (\<exists>n d1 w1 d2 w2. FsSys_format w name = Inr n \<and>
                         FsDir_new w name ig = (Inr d1, w1) \<and>
                         FsDir_new w1 name ig' = (Inr d2, w2) \<and>
                         objective d2 = objective d1 \<and> dbId d2 = dbId d1 \<and>
                         scoreboard w2 = scoreboard w1 \<and>
                         getObjective (scoreboard w1) n = Some (objective d1) \<and>
                         getObjective (scoreboard w2) n = Some (objective d2) \<and>
                         (getObjective (scoreboard w) n = None \<longrightarrow>
                            scoreboard w1 = (scoreboard w)(n \<mapsto> objective d1) \<and>
                            dbId d1 = n \<and> objectiveId (objective d1) = n)) \<and>
         FsDir_get (snd (FsDir_delete w name)) name = Inr None"
proof (intro conjI allI impI)
  fix n ob
  assume "FsSys_format w name = Inr n \<and> getObjective (scoreboard w) n = Some ob"
  then show "\<exists>d w1. FsDir_new w name ig = (Inr d, w1) \<and> objective d = ob \<and>
                     dbId d = objectiveDisplayName ob \<and> scoreboard w1 = scoreboard w"
    using new_existing [OF init, of name n ob ig] by auto
next
  obtain n where n: "FsSys_format w name = Inr n" using format_init [OF init] by blast
  show "\<exists>n d1 w1 d2 w2. FsSys_format w name = Inr n \<and>
                         FsDir_new w name ig = (Inr d1, w1) \<and>
                         FsDir_new w1 name ig' = (Inr d2, w2) \<and>
                         objective d2 = objective d1 \<and> dbId d2 = dbId d1 \<and>
                         scoreboard w2 = scoreboard w1 \<and>
                         getObjective (scoreboard w1) n = Some (objective d1) \<and>
                         getObjective (scoreboard w2) n = Some (objective d2) \<and>
                         (getObjective (scoreboard w) n = None \<longrightarrow>
                            scoreboard w1 = (scoreboard w)(n \<mapsto> objective d1) \<and>
                            dbId d1 = n \<and> objectiveId (objective d1) = n)"
  proof (cases "getObjective (scoreboard w) n")
    case (Some ob)
    define d where "d = \<lparr>objective = ob, dbId = objectiveDisplayName ob,
                 localId = toUpperCase (author a @ ''_'' @ packId a)\<rparr>"
    from new_existing [OF init n Some, of ig] obtain w1 where
      1: "FsDir_new w name ig = (Inr d, w1)"
      and s: "scoreboard w1 = scoreboard w" and a: "addonData w1 = addonData w"
      unfolding d_def by blast
    have init1: "addonData w1 = Some a" using a init by simp
    have n1: "FsSys_format w1 name = Inr n" using format_indep [OF a] n by simp
    have ob1: "getObjective (scoreboard w1) n = Some ob" using s Some by simp
    from new_existing [OF init1 n1 ob1, of ig'] obtain w2 where
      2: "FsDir_new w1 name ig' = (Inr d, w2)" and s2: "scoreboard w2 = scoreboard w1"
      unfolding d_def by blast
    have od: "objective d = ob" by (simp add: d_def)
    have "getObjective (scoreboard w2) n = Some (objective d)"
      using ob1 s2 od by simp
    with n 1 2 s2 ob1 od Some show ?thesis by auto
  next
    case None
    define ob where "ob = \<lparr>objectiveId = n, objectiveDisplayName = n, participants = []\<rparr>"
    define w1 where "w1 = w\<lparr>scoreboard := (scoreboard w)(n \<mapsto> ob)\<rparr>"
    define d where "d = \<lparr>objective = ob, dbId = n,
                 localId = toUpperCase (author a @ ''_'' @ packId a)\<rparr>"
    have 1: "FsDir_new w name ig = (Inr d, w1)"
      using new_missing [OF init n None, of ig] by (simp add: ob_def w1_def d_def)
    have init1: "addonData w1 = Some a" using init by (simp add: w1_def)
    have n1: "FsSys_format w1 name = Inr n"
      using format_indep [of w1 w name] n by (simp add: w1_def)
    have ob1: "getObjective (scoreboard w1) n = Some ob"
      by (simp add: w1_def getObjective_def)
    from new_existing [OF init1 n1 ob1, of ig'] obtain w2 where
      2: "FsDir_new w1 name ig' = (Inr d, w2)" and s2: "scoreboard w2 = scoreboard w1"
      by (auto simp: d_def ob_def)
    have od: "objective d = ob" "dbId d = n" "objectiveId (objective d) = n"
      by (simp_all add: d_def ob_def)
    have sw: "scoreboard w1 = (scoreboard w)(n \<mapsto> objective d)"
      by (simp add: w1_def od)
    have "getObjective (scoreboard w2) n = Some (objective d)"
      using ob1 s2 od by simp
    with n 1 2 s2 ob1 od sw show ?thesis by auto
  qed
next
  show "FsDir_get (snd (FsDir_delete w name)) name = Inr None"
    using init
    by (auto simp: FsDir_delete_def FsDir_get_def FsSys_format_def FsSys_getLocalId_def
        Directory_create_def getObjective_def removeObjective_def split: option.splits)
qed

theorem registry_new_returns_existing_witness:
  "addonData fresh = Some (ann None) \<and>
   FsDir_new fresh ''logs'' True =
     (Inr \<lparr>objective = logs, dbId = ''ACM:FS.ANN_CORE.LOGS'', localId = ''ANN_CORE''\<rparr>,
      registered []) \<and>
   FsSys_format (registered []) ''logs'' = Inr ''ACM:FS.ANN_CORE.LOGS'' \<and>
   getObjective (scoreboard (registered [])) ''ACM:FS.ANN_CORE.LOGS'' = Some logs \<and>
   FsDir_new (registered []) ''logs'' False =
     (Inr \<lparr>objective = logs, dbId = ''ACM:FS.ANN_CORE.LOGS'', localId = ''ANN_CORE''\<rparr>,
      registered [''Directory ACM:FS.ANN_CORE.LOGS already exists'']) \<and>
   FsDir_delete (registered []) ''logs'' = (Inr (), fresh) \<and>
   FsDir_get fresh ''logs'' = Inr None \<and>
   getObjective (scoreboard fresh) ''ACM:FS.ANN_CORE.LOGS'' = None \<and>
   scoreboard (registered []) = (scoreboard fresh)(''ACM:FS.ANN_CORE.LOGS'' \<mapsto> logs)"
  using registry_new_returns_existing [where w = fresh and a = "ann None" and name = "''logs''"
      and ig = True and ig' = False]
    registry_new_returns_existing [where w = "registered []" and a = "ann None"
      and name = "''logs''" and ig = False and ig' = False]
  by (simp add: reg_eval)

section \<open>Loading the settings\<close>

lemma raw_first_zero:
  assumes "getParticipants db = pre @ p # post" and "getScore db p = 0"
    and "\<forall>q \<in> set pre. getScore db q \<noteq> 0"
  shows "getRawSettingsData db = Some p"
proof -
  have "find (\<lambda>q. getScore db q = 0) (pre @ p # post) = Some p"
    using assms(2,3) by (induction pre) auto
  then show ?thesis using assms(1) by (simp add: getRawSettingsData_def)
qed

lemma raw_no_zero:
  assumes "\<forall>q \<in> set (getParticipants db). getScore db q \<noteq> 0"
  shows "getRawSettingsData db = None"
  using assms by (auto simp: getRawSettingsData_def find_None_iff)

lemma find_Some_split:
  "find P xs = Some x \<Longrightarrow> \<exists>pre post. xs = pre @ x # post \<and> P x \<and> (\<forall>q \<in> set pre. \<not> P q)"
proof (induction xs)
  case Nil
  then show ?case by simp
next
  case (Cons y ys)
  show ?case
  proof (cases "P y")
    case True
    with Cons.prems have "y = x" by simp
    with True have "y # ys = [] @ x # ys \<and> P x \<and> (\<forall>q \<in> set []. \<not> P q)" by simp
    then show ?thesis by blast
  next
    case False
    with Cons.prems have "find P ys = Some x" by simp
    from Cons.IH [OF this] obtain pre post where
      "ys = pre @ x # post" "P x" "\<forall>q \<in> set pre. \<not> P q" by blast
    with False have "y # ys = (y # pre) @ x # post \<and> P x \<and> (\<forall>q \<in> set (y # pre). \<not> P q)"
      by simp
    then show ?thesis by blast
  qed
qed

lemma raw_Some_first:
  assumes "getRawSettingsData db = Some p"
  shows "\<exists>pre post. getParticipants db = pre @ p # post \<and> getScore db p = 0 \<and>
           (\<forall>q \<in> set pre. getScore db q \<noteq> 0)"
  using find_Some_split [of "\<lambda>q. getScore db q = 0" "getParticipants db" p] assms
  by (simp add: getRawSettingsData_def)

lemma category_by_title:
  "title c1 = title c2 \<Longrightarrow> processCategorySettings J w c1 = processCategorySettings J w c2"
  by (simp add: processCategorySettings_def)

lemma loadCatagories_keeps:
  "loadCatagories J w cs obj = Inr obj' \<Longrightarrow> k \<notin> title ` set cs \<Longrightarrow> obj' k = obj k"
  by (induction cs arbitrary: obj) (auto split: sum.splits)

lemma loadCatagories_each:
  "loadCatagories J w cs obj = Inr obj' \<Longrightarrow> cat \<in> set cs \<Longrightarrow>
     \<exists>co. processCategorySettings J w cat = Inr co \<and> obj' (title cat) = Some co"
proof (induction cs arbitrary: obj cat)
  case Nil
  then show ?case by simp
next
  case (Cons c cs)
  from Cons.prems(1) obtain co where co: "processCategorySettings J w c = Inr co"
    and rest: "loadCatagories J w cs (obj(title c \<mapsto> co)) = Inr obj'"
    by (auto split: sum.splits)
  show ?case
  proof (cases "title cat \<in> title ` set cs")
    case True
    then obtain c' where c': "c' \<in> set cs" "title c' = title cat" by auto
    from Cons.IH [OF rest c'(1)] c'(2) category_by_title [of c' cat J w]
    show ?thesis by auto
  next
    case False
    then have "cat = c" using Cons.prems(2) by auto
    moreover have "obj' (title cat) = (obj(title c \<mapsto> co)) (title cat)"
      using loadCatagories_keeps [OF rest False] .
    ultimately show ?thesis using co by simp
  qed
qed

lemma flat_uses_raw:
  "getSettingsDatabase w None = Some db \<Longrightarrow>
     processFlatSettings J w =
       (case getRawSettingsData db of
          None \<Rightarrow> Inr Map.empty
        | Some raw \<Rightarrow> map_sum id settingsOf (parseSettingsArray J raw))"
  by (auto simp: processFlatSettings_def split: option.splits sum.splits)

lemma category_uses_raw:
  "getSettingsDatabase w (Some (title cat)) = Some db \<Longrightarrow>
     processCategorySettings J w cat =
       (case getRawSettingsData db of
          None \<Rightarrow> Inr Map.empty
        | Some raw \<Rightarrow> map_sum id settingsOf (parseSettingsArray J raw))"
  by (auto simp: processCategorySettings_def split: option.splits sum.splits)

text \<open>
  C9 (confirmed). The raw settings blob is the first participant of the ledger whose score
  is 0. For the flat ledger and for the ledger of a category: when such a participant
  exists the settings are parsed from its display name, and when none exists the
  settings object is empty. \<^verbatim>\<open>loadSettingsData\<close> of flat settings is the object of the flat
  ledger, and that of categories maps each category's title to the object of its ledger.
\<close>

theorem settings_blob_is_first_zero_score:
  "(getRawSettingsData db = Some p \<longleftrightarrow>
      (\<exists>pre post. getParticipants db = pre @ p # post \<and> getScore db p = 0 \<and>
         (\<forall>q \<in> set pre. getScore db q \<noteq> 0))) \<and>
   (getSettingsDatabase w None = Some db \<and>
    getParticipants db = pre @ p # post \<and> getScore db p = 0 \<and>
    (\<forall>q \<in> set pre. getScore db q \<noteq> 0) \<longrightarrow>
      processFlatSettings J w = map_sum id settingsOf (parseSettingsArray J p)) \<and>
   (getSettingsDatabase w None = Some db \<and>
    (\<forall>q \<in> set (getParticipants db). getScore db q \<noteq> 0) \<longrightarrow>
      processFlatSettings J w = Inr Map.empty) \<and>
   (getSettingsDatabase w (Some (title cat)) = Some db \<and>
    getParticipants db = pre @ p # post \<and> getScore db p = 0 \<and>
    (\<forall>q \<in> set pre. getScore db q \<noteq> 0) \<longrightarrow>
      processCategorySettings J w cat = map_sum id settingsOf (parseSettingsArray J p)) \<and>
   (getSettingsDatabase w (Some (title cat)) = Some db \<and>
    (\<forall>q \<in> set (getParticipants db). getScore db q \<noteq> 0) \<longrightarrow>
      processCategorySettings J w cat = Inr Map.empty) \<and>
   (addonData w = Some a \<and> settings a = Some (Widgets ws) \<longrightarrow>
      loadSettingsData J w = map_sum id Flat (processFlatSettings J w)) \<and>
   (addonData w = Some a \<and> settings a = Some (Catagories cs) \<and> cat \<in> set cs \<and>
    loadSettingsData J w = Inr r \<longrightarrow>
      (\<exists>obj co. r = ByCatagory obj \<and> processCategorySettings J w cat = Inr co \<and>
                 obj (title cat) = Some co))"
proof (intro conjI impI)
  show "getRawSettingsData db = Some p \<longleftrightarrow>
      (\<exists>pre post. getParticipants db = pre @ p # post \<and> getScore db p = 0 \<and>
         (\<forall>q \<in> set pre. getScore db q \<noteq> 0))"
    using raw_Some_first [of db p] raw_first_zero [of db _ p] by blast
next
  assume "getSettingsDatabase w None = Some db \<and>
    getParticipants db = pre @ p # post \<and> getScore db p = 0 \<and>
    (\<forall>q \<in> set pre. getScore db q \<noteq> 0)"
  then show "processFlatSettings J w = map_sum id settingsOf (parseSettingsArray J p)"
    using flat_uses_raw [of w db J] raw_first_zero [of db pre p post] by simp
next
  assume "getSettingsDatabase w None = Some db \<and>
    (\<forall>q \<in> set (getParticipants db). getScore db q \<noteq> 0)"
  then show "processFlatSettings J w = Inr Map.empty"
    using flat_uses_raw [of w db J] raw_no_zero [of db] by simp
next
  assume "getSettingsDatabase w (Some (title cat)) = Some db \<and>
    getParticipants db = pre @ p # post \<and> getScore db p = 0 \<and>
    (\<forall>q \<in> set pre. getScore db q \<noteq> 0)"
  then show "processCategorySettings J w cat = map_sum id settingsOf (parseSettingsArray J p)"
    using category_uses_raw [of w cat db J] raw_first_zero [of db pre p post] by simp
next
  assume "getSettingsDatabase w (Some (title cat)) = Some db \<and>
    (\<forall>q \<in> set (getParticipants db). getScore db q \<noteq> 0)"
  then show "processCategorySettings J w cat = Inr Map.empty"
    using category_uses_raw [of w cat db J] raw_no_zero [of db] by simp
next
  assume "addonData w = Some a \<and> settings a = Some (Widgets ws)"
  then show "loadSettingsData J w = map_sum id Flat (processFlatSettings J w)"
    by (auto simp: loadSettingsData_def split: sum.splits)
next
  assume a: "addonData w = Some a \<and> settings a = Some (Catagories cs) \<and> cat \<in> set cs \<and>
    loadSettingsData J w = Inr r"
  then have ne: "cs \<noteq> []" by auto
  from a ne obtain obj where obj: "loadCatagories J w cs Map.empty = Inr obj" "r = ByCatagory obj"
    by (auto simp: loadSettingsData_def split: sum.splits)
  from loadCatagories_each [OF obj(1), of cat] a obj(2)
  show "\<exists>obj co. r = ByCatagory obj \<and> processCategorySettings J w cat = Inr co \<and>
                 obj (title cat) = Some co" by blast
qed

theorem settings_blob_is_first_zero_score_witness:
  "getRawSettingsData (ledger ''ACM:ANN_CORE'' [(''[]'', 1), (blob, 0), (''[]'', 0)]) =
     Some (blob, 0) \<and>
   processFlatSettings widgetJSON (configured (Widgets [])) =
     Inr [''on'' \<mapsto> Some (VBool True)] \<and>
   processFlatSettings widgetJSON unset = Inr Map.empty \<and>
   processCategorySettings widgetJSON (configured (Widgets [])) sound =
     Inr [''on'' \<mapsto> Some (VBool True)] \<and>
   processCategorySettings widgetJSON (configured (Widgets [])) video = Inr Map.empty \<and>
   loadSettingsData widgetJSON (configured (Widgets [])) =
     Inr (Flat [''on'' \<mapsto> Some (VBool True)]) \<and>
   loadSettingsData widgetJSON (configured (Catagories [sound, video])) =
     Inr (ByCatagory [''sound'' \<mapsto> [''on'' \<mapsto> Some (VBool True)], ''video'' \<mapsto> Map.empty])"
  using settings_blob_is_first_zero_score [where w = "configured (Widgets [])"
      and db = "ledger ''ACM:ANN_CORE'' [(''[]'', 1), (blob, 0), (''[]'', 0)]"
      and pre = "[(''[]'', 1)]" and p = "(blob, 0)" and post = "[(''[]'', 0)]"
      and J = widgetJSON and a = "ann (Some (Widgets []))" and ws = "[]"]
    settings_blob_is_first_zero_score [where w = unset
      and db = "ledger ''ACM:ANN_CORE'' [(blob, 2)]" and J = widgetJSON]
    settings_blob_is_first_zero_score [where w = "configured (Widgets [])"
      and db = "ledger ''ACM:ANN_CORE_SOUND'' [(''[]'', 1), (blob, 0)]"
      and pre = "[(''[]'', 1)]" and p = "(blob, 0)" and post = "[]"
      and J = widgetJSON and cat = sound]
    settings_blob_is_first_zero_score [where w = "configured (Widgets [])"
      and db = "ledger ''ACM:ANN_CORE_VIDEO'' [(blob, 2)]" and J = widgetJSON and cat = video]
    settings_blob_is_first_zero_score [where w = "configured (Catagories [sound, video])"
      and J = widgetJSON and a = "ann (Some (Catagories [sound, video]))"
      and cs = "[sound, video]" and cat = sound
      and r = "ByCatagory [''sound'' \<mapsto> [''on'' \<mapsto> Some (VBool True)], ''video'' \<mapsto> Map.empty]"]
  by (simp add: set_eval)

end
